theory Spec2Isabelle
  imports Main "HOL-Library.AList"
begin

section \<open>JavaScript values\<close>

text \<open>
  The plugin loader (\<^verbatim>\<open>js/plugin-loader.js\<close>) works on objects parsed from JSON and
  decides almost everything by truthiness (\<^verbatim>\<open>!this.host\<close>), by \<^verbatim>\<open>typeof\<close> and by
  comparison with string literals. A field of such an object is modelled by \<open>jsval\<close>.
  \<open>JNum\<close> carries the integer-valued numbers (ports); \<open>JObj\<close> stands for any plain
  object. Arrays and non-integer numbers are not modelled as field values.
\<close>

datatype jsval = JUndefined | JNull | JBool bool | JNum int | JStr string | JObj

fun truthy :: "jsval \<Rightarrow> bool" where
  "truthy JUndefined = False"
| "truthy JNull = False"
| "truthy (JBool b) = b"
| "truthy (JNum n) = (n \<noteq> 0)"
| "truthy (JStr s) = (s \<noteq> [])"
| "truthy JObj = True"

text \<open>\<^verbatim>\<open>typeof v === "string"\<close>\<close>

fun isString :: "jsval \<Rightarrow> bool" where
  "isString (JStr s) = True"
| "isString v = False"

text \<open>
  \<^verbatim>\<open>v == "lit"\<close> and \<^verbatim>\<open>v === "lit"\<close> for the literals of the loader (\<^verbatim>\<open>"external"\<close>,
  \<^verbatim>\<open>"import"\<close>, \<^verbatim>\<open>"nodeService"\<close>, \<^verbatim>\<open>"router"\<close>, \<^verbatim>\<open>"service"\<close>, \<^verbatim>\<open>"library"\<close>). None of
  them reads as a number and none is the string of a plain object, so on \<open>jsval\<close> the
  loose and the strict comparison agree: only the same string is equal.
\<close>

definition eqLit :: "jsval \<Rightarrow> string \<Rightarrow> bool" where
  "eqLit v lit = (v = JStr lit)"

text \<open>Decimal digits of a number, for property keys.\<close>

function showNat :: "nat \<Rightarrow> string" where
  "showNat n = (if n < 10 then [char_of (48 + n)] else showNat (n div 10) @ [char_of (48 + n mod 10)])"
  by pat_completeness auto
termination
  by (relation "measure (\<lambda>n. n)") auto

declare showNat.simps [simp del]

text \<open>
  \<^verbatim>\<open>obj[v]\<close> converts \<open>v\<close> to a property key: the string itself, or the string JavaScript
  prints for the value (decimal digits for the integers modelled here).

  The objects the loader uses as dictionaries (\<^verbatim>\<open>pluginMap\<close>, the two containers of a plugin,
  the \<^verbatim>\<open>versions\<close> of a group) are association lists from keys to values. This is what
  a JavaScript object does for ordinary keys. It is not what it does for \<^verbatim>\<open>__proto__\<close> and
  for the names every object inherits (\<^verbatim>\<open>constructor\<close>, \<^verbatim>\<open>toString\<close>, ...): identifiers,
  service names and versions of these names are outside the model.
\<close>

fun toPropertyKey :: "jsval \<Rightarrow> string" where
  "toPropertyKey JUndefined = ''undefined''"
| "toPropertyKey JNull = ''null''"
| "toPropertyKey (JBool b) = (if b then ''true'' else ''false'')"
| "toPropertyKey (JNum n) = (if n < 0 then CHR ''-'' # showNat (nat (- n)) else showNat (nat n))"
| "toPropertyKey (JStr s) = s"
| "toPropertyKey JObj = ''[object Object]''"

section \<open>Errors\<close>

text \<open>
  Every \<^verbatim>\<open>throw\<close> of the loader and every exception of a collaborator it calls is a value
  of \<open>error\<close>. \<open>InvalidVersion name version\<close> and \<open>InvalidVersionRange localName range\<close>
  are the two errors of \<^verbatim>\<open>validate\<close>; \<open>UnknownPluginType identifier pluginType\<close> is the
  error of \<^verbatim>\<open>makePlugin\<close>; \<open>NoFileName\<close> the one of \<^verbatim>\<open>loadImplementation\<close>;
  \<open>AlreadyRegistered\<close> the one of \<^verbatim>\<open>addDynamicPlugin\<close>. \<open>ModuleLoadError\<close> is a failing
  \<^verbatim>\<open>require\<close> or \<^verbatim>\<open>requireFromString\<close>, \<open>TypeError\<close> a call on \<^verbatim>\<open>null\<close> or
  \<^verbatim>\<open>semver.gt\<close> on an invalid version, \<open>ReferenceError\<close> the use of an unbound variable,
  \<open>AssertionError\<close> a failing \<^verbatim>\<open>assert\<close>.
\<close>

datatype error =
    InvalidVersion jsval jsval
  | InvalidVersionRange jsval jsval
  | UnknownPluginType jsval jsval
  | NoFileName
  | AlreadyRegistered
  | ModuleLoadError
  | TypeError
  | ReferenceError
  | AssertionError

section \<open>Data model\<close>

subsection \<open>Service definitions and service objects\<close>

text \<open>
  An entry of a plugin definition's \<^verbatim>\<open>dataServices\<close> array, with the fields the loader
  reads. An absent field is \<open>JUndefined\<close>.
\<close>

record service_def =
  svc_type :: jsval
  svc_name :: jsval
  svc_version :: jsval
  svc_versionRange :: jsval
  svc_localName :: jsval
  svc_sourceName :: jsval
  svc_sourcePlugin :: jsval
  svc_host :: jsval
  svc_port :: jsval
  svc_filename :: jsval
  svc_fileName :: jsval
  svc_source :: jsval

text \<open>The four constructors with their prototypes.\<close>

datatype service_class = ServiceProto | ImportProto | NodeServiceProto | ExternalServiceProto

text \<open>
  A constructed service: the fields of its definition (\<^verbatim>\<open>Object.assign(this, def)\<close>), its
  prototype, and whether \<^verbatim>\<open>loadImplementation\<close> has set \<^verbatim>\<open>nodeModule\<close>.
\<close>

record service = service_def +
  svc_proto :: service_class
  svc_nodeModule :: bool

text \<open>
  A group of \<^verbatim>\<open>dataServicesGrouped\<close> or \<^verbatim>\<open>importsGrouped\<close>. \<^verbatim>\<open>versions\<close> is an object used
  as a dictionary: an association list in insertion order, one entry per key.
\<close>

record service_group =
  highestVersion :: jsval
  versions :: "(string \<times> service) list"

type_synonym container = "(string \<times> service_group) list"

subsection \<open>Plugin definitions and plugin objects\<close>

text \<open>\<^verbatim>\<open>webContent\<close>, when present, is an object; the loader writes its \<^verbatim>\<open>path\<close>.\<close>

record web_content =
  wc_path :: "string option"

text \<open>
  The fields of a plugin definition. \<^verbatim>\<open>dataServices\<close> is \<open>None\<close> when the definition
  has no (or a falsy) \<^verbatim>\<open>dataServices\<close>. The type of its elements is a parameter: service
  definitions before \<^verbatim>\<open>initDataServices\<close>, service objects after.
\<close>

record 'svc plugin_def =
  "identifier" :: jsval
  pluginVersion :: jsval
  apiVersion :: jsval
  pluginType :: jsval
  webContent :: "web_content option"
  location :: jsval
  dataServices :: "'svc list option"
  host :: jsval
  port :: jsval
  filename :: jsval
  authenticationCategory :: jsval

datatype plugin_class =
    LibraryPlugIn
  | ApplicationPlugIn
  | WindowManagerPlugIn
  | BootstrapPlugIn
  | DesktopPlugIn
  | NodeAuthenticationPlugIn
  | ProxyConnectorPlugIn

text \<open>
  A plugin object: the fields of its definition, its prototype, and the fields the loader
  adds. \<^verbatim>\<open>dataServicesGrouped\<close> and \<^verbatim>\<open>importsGrouped\<close> are \<open>None\<close> until
  \<^verbatim>\<open>initDataServices\<close> sets them.
\<close>

record 'svc plugin = "'svc plugin_def" +
  plugin_proto :: plugin_class
  dataServicesGrouped :: "container option"
  importsGrouped :: "container option"
  dynamicallyCreated :: bool
  authenticationModule :: bool

type_synonym pluginDef = "service_def plugin_def"
type_synonym newPlugin = "service_def plugin"
type_synonym loadedPlugin = "service plugin"

subsection \<open>Collaborators\<close>

text \<open>
  A configuration object of the configuration service. The loader reads it in one way
  only, \<^verbatim>\<open>configuration.getContents(["remote.json"])\<close>, so it is modelled by that result:
  \<open>None\<close> when the result is falsy, the remote configuration object otherwise.
\<close>

record remote_config =
  rc_host :: jsval
  rc_port :: jsval

type_synonym configuration = "remote_config option"

text \<open>An entry of \<^verbatim>\<open>rejects\<close>, as \<^verbatim>\<open>installPlugins\<close> reads it.\<close>

record reject =
  pluginId :: jsval
  status :: string

text \<open>
  What the loader calls and does not define, as parameters:
  \<^item> the \<^verbatim>\<open>semver\<close> package: \<open>semver_valid v\<close> and \<open>semver_validRange v\<close> say whether
    \<^verbatim>\<open>semver.valid(v)\<close> and \<^verbatim>\<open>semver.validRange(v)\<close> are truthy; \<open>semver_gt a b\<close> is the
    result of \<^verbatim>\<open>semver.gt(a, b)\<close>, \<open>None\<close> when it throws;
  \<^item> the configuration service: \<open>getServiceConfiguration pluginId serviceName\<close> and
    \<open>getPluginConfiguration pluginId\<close> (the server configuration and the product code,
    their other arguments, are fixed options of the loader);
  \<^item> \<open>authManager\<close>: the option \<^verbatim>\<open>authManager\<close> (\<open>None\<close> when it is \<^verbatim>\<open>null\<close>, the
    default), as its method \<^verbatim>\<open>authPluginRequested(identifier, category)\<close>;
  \<^item> module loading and the file system: \<open>requireFromString source\<close> and
    \<open>requireLib location filename\<close> say whether \<^verbatim>\<open>requireFromString(source)\<close> and
    \<^verbatim>\<open>require(path.join(location, 'lib', filename))\<close> return; \<open>existsSync location\<close> and
    \<open>webDirExists location\<close> are \<^verbatim>\<open>fs.existsSync\<close> of the location and of its \<^verbatim>\<open>web\<close>
    directory; \<open>cwd\<close> is \<^verbatim>\<open>process.cwd()\<close>;
  \<^item> the dependency graph (\<^verbatim>\<open>./depgraph\<close>, not among the sources):
    \<open>processImports existing defs\<close> is the result of \<^verbatim>\<open>processImports()\<close> on a
    \<^verbatim>\<open>DependencyGraph\<close> built from the plugins already loaded, after \<^verbatim>\<open>addPlugin\<close> of every
    definition: the sorted definitions (\<^verbatim>\<open>plugins\<close>) and the \<^verbatim>\<open>rejects\<close>.
\<close>

record host_env =
  semver_valid :: "jsval \<Rightarrow> bool"
  semver_validRange :: "jsval \<Rightarrow> bool"
  semver_gt :: "jsval \<Rightarrow> jsval \<Rightarrow> bool option"
  getServiceConfiguration :: "jsval \<Rightarrow> jsval \<Rightarrow> configuration"
  getPluginConfiguration :: "jsval \<Rightarrow> configuration"
  authManager :: "(jsval \<Rightarrow> jsval \<Rightarrow> bool) option"
  requireFromString :: "jsval \<Rightarrow> bool"
  requireLib :: "jsval \<Rightarrow> jsval \<Rightarrow> bool"
  existsSync :: "jsval \<Rightarrow> bool"
  webDirExists :: "string \<Rightarrow> bool"
  cwd :: string
  processImports :: "loadedPlugin list \<Rightarrow> pluginDef list \<Rightarrow> pluginDef list \<times> reject list"

section \<open>Services\<close>

text \<open>\<^verbatim>\<open>Object.assign(this, def)\<close> on a fresh object of the given prototype.\<close>

definition Object_assign :: "service_class \<Rightarrow> service_def \<Rightarrow> service" where
  "Object_assign proto def =
     \<lparr>svc_type = svc_type def, svc_name = svc_name def, svc_version = svc_version def,
      svc_versionRange = svc_versionRange def, svc_localName = svc_localName def,
      svc_sourceName = svc_sourceName def, svc_sourcePlugin = svc_sourcePlugin def,
      svc_host = svc_host def, svc_port = svc_port def, svc_filename = svc_filename def,
      svc_fileName = svc_fileName def, svc_source = svc_source def,
      svc_proto = proto, svc_nodeModule = False\<rparr>"

text \<open>
  \<^verbatim>\<open>function Service(def, configuration, plugin)\<close>, also called by the other three
  constructors on their own \<^verbatim>\<open>this\<close>: the prototype is its first argument here. A
  version that is \<^verbatim>\<open>undefined\<close> becomes the plugin's \<^verbatim>\<open>apiVersion\<close>.
\<close>

definition Service :: "service_class \<Rightarrow> service_def \<Rightarrow> ('s, 'z) plugin_def_scheme \<Rightarrow> service" where
  "Service proto def plugin =
     (let this = Object_assign proto def in
      if svc_version this = JUndefined then this\<lparr>svc_version := apiVersion plugin\<rparr> else this)"

definition Import :: "service_def \<Rightarrow> ('s, 'z) plugin_def_scheme \<Rightarrow> service" where
  "Import def plugin = Service ImportProto def plugin"

definition NodeService :: "service_def \<Rightarrow> ('s, 'z) plugin_def_scheme \<Rightarrow> service" where
  "NodeService def plugin = Service NodeServiceProto def plugin"

text \<open>
  \<^verbatim>\<open>function ExternalService(def, configuration, plugin)\<close>: host and port from the
  definition, then from the plugin, then from the remote configuration.
\<close>

definition ExternalService ::
  "service_def \<Rightarrow> configuration \<Rightarrow> ('s, 'z) plugin_def_scheme \<Rightarrow> service" where
  "ExternalService def configuration plugin =
     (let this = Service ExternalServiceProto def plugin;
          this = (if \<not> truthy (svc_host this) then this\<lparr>svc_host := host plugin\<rparr> else this);
          this = (if \<not> truthy (svc_port this) then this\<lparr>svc_port := port plugin\<rparr> else this)
      in case configuration of
           None \<Rightarrow> this
         | Some remoteConfig \<Rightarrow>
             (let this = (if \<not> truthy (svc_host this)
                          then this\<lparr>svc_host := rc_host remoteConfig\<rparr> else this);
                  this = (if \<not> truthy (svc_port this)
                          then this\<lparr>svc_port := rc_port remoteConfig\<rparr> else this)
              in this))"

text \<open>
  \<^verbatim>\<open>validate()\<close>: \<^verbatim>\<open>Import.prototype\<close> overrides it, the other prototypes inherit
  \<^verbatim>\<open>Service.prototype.validate\<close>.
\<close>

definition validate :: "host_env \<Rightarrow> service \<Rightarrow> error + unit" where
  "validate env this =
     (case svc_proto this of
        ImportProto \<Rightarrow>
          if \<not> semver_validRange env (svc_versionRange this)
          then Inl (InvalidVersionRange (svc_localName this) (svc_versionRange this))
          else Inr ()
      | _ \<Rightarrow>
          if \<not> semver_valid env (svc_version this)
          then Inl (InvalidVersion (svc_name this) (svc_version this))
          else Inr ())"

definition makeDataService ::
  "host_env \<Rightarrow> service_def \<Rightarrow> ('s, 'z) plugin_def_scheme \<Rightarrow> error + service" where
  "makeDataService env def plugin =
     (let configuration = getServiceConfiguration env (identifier plugin) (svc_name def);
          dataservice =
            (if eqLit (svc_type def) ''external'' then ExternalService def configuration plugin
             else if eqLit (svc_type def) ''import'' then Import def plugin
             else if eqLit (svc_type def) ''nodeService'' \<or> eqLit (svc_type def) ''router''
               then NodeService def plugin
             else Service ServiceProto def plugin)
      in case validate env dataservice of
           Inl e \<Rightarrow> Inl e
         | Inr u \<Rightarrow> Inr dataservice)"

text \<open>\<^verbatim>\<open>NodeService.prototype.loadImplementation(dynamicallyCreated, location)\<close>\<close>

definition loadImplementation :: "host_env \<Rightarrow> service \<Rightarrow> bool \<Rightarrow> jsval \<Rightarrow> error + service" where
  "loadImplementation env this dynamicallyCreated' location' =
     (if dynamicallyCreated' then
        (if requireFromString env (svc_source this)
         then Inr (this\<lparr>svc_nodeModule := True\<rparr>) else Inl ModuleLoadError)
      else if truthy (svc_filename this) then
        (if requireLib env location' (svc_filename this)
         then Inr (this\<lparr>svc_nodeModule := True\<rparr>) else Inl ModuleLoadError)
      else if truthy (svc_fileName this) then
        (if requireLib env location' (svc_fileName this)
         then Inr (this\<lparr>svc_nodeModule := True\<rparr>) else Inl ModuleLoadError)
      else Inl NoFileName)"

text \<open>
  \<^verbatim>\<open>addService(service, name, container)\<close> of \<^verbatim>\<open>initDataServices\<close>. The group is created on
  the first insertion under a name; \<^verbatim>\<open>semver.gt\<close> is called only when the group's
  \<^verbatim>\<open>highestVersion\<close> is truthy, and its exception leaves \<^verbatim>\<open>addService\<close>.
\<close>

definition addService :: "host_env \<Rightarrow> service \<Rightarrow> jsval \<Rightarrow> container \<Rightarrow> error + container" where
  "addService env service name container =
     (let group = (case map_of container (toPropertyKey name) of
                     None \<Rightarrow> \<lparr>highestVersion = JNull, versions = []\<rparr>
                   | Some g \<Rightarrow> g);
          store = (\<lambda>g. Inr (AList.update (toPropertyKey name)
                     (g\<lparr>versions := AList.update (toPropertyKey (svc_version service)) service
                                    (versions g)\<rparr>) container))
      in if \<not> truthy (highestVersion group)
         then store (group\<lparr>highestVersion := svc_version service\<rparr>)
         else (case semver_gt env (svc_version service) (highestVersion group) of
                 None \<Rightarrow> Inl TypeError
               | Some isGreater \<Rightarrow>
                   if isGreater then store (group\<lparr>highestVersion := svc_version service\<rparr>)
                   else store group))"

text \<open>A \<^verbatim>\<open>for ... of\<close> loop whose body may throw: the first exception ends it.\<close>

fun forEach :: "('a \<Rightarrow> 's \<Rightarrow> error + 's) \<Rightarrow> 'a list \<Rightarrow> 's \<Rightarrow> error + 's" where
  "forEach body [] s = Inr s"
| "forEach body (x # xs) s =
     (case body x s of
        Inl e \<Rightarrow> Inl e
      | Inr s' \<Rightarrow> forEach body xs s')"

text \<open>
  The state of the loop of \<^verbatim>\<open>initDataServices\<close>: \<^verbatim>\<open>this.dataServicesGrouped\<close>,
  \<^verbatim>\<open>this.importsGrouped\<close> and \<^verbatim>\<open>filteredDataServices\<close>.
\<close>

record services_state =
  groupedServices :: container
  groupedImports :: container
  filteredDataServices :: "service list"

text \<open>The body of the loop, for one \<^verbatim>\<open>dataServiceDef\<close>.\<close>

definition initDataService ::
  "host_env \<Rightarrow> ('s, 'z) plugin_scheme \<Rightarrow> service_def \<Rightarrow> services_state \<Rightarrow> error + services_state" where
  "initDataService env this dataServiceDef st =
     (case makeDataService env dataServiceDef this of
        Inl e \<Rightarrow> Inl e
      | Inr dataservice \<Rightarrow>
          if eqLit (svc_type dataservice) ''service'' then
            (case addService env dataservice (svc_name dataservice) (groupedServices st) of
               Inl e \<Rightarrow> Inl e
             | Inr c \<Rightarrow> Inr (st\<lparr>groupedServices := c,
                   filteredDataServices := filteredDataServices st @ [dataservice]\<rparr>))
          else if eqLit (svc_type dataservice) ''import'' then
            (case addService env dataservice (svc_localName dataservice) (groupedImports st) of
               Inl e \<Rightarrow> Inl e
             | Inr c \<Rightarrow> Inr (st\<lparr>groupedImports := c,
                   filteredDataServices := filteredDataServices st @ [dataservice]\<rparr>))
          else if eqLit (svc_type dataservice) ''nodeService''
                  \<or> eqLit (svc_type dataservice) ''router'' then
            (case loadImplementation env dataservice (dynamicallyCreated this) (location this) of
               Inl e \<Rightarrow> Inl e
             | Inr dataservice \<Rightarrow>
                 (case addService env dataservice (svc_name dataservice) (groupedServices st) of
                    Inl e \<Rightarrow> Inl e
                  | Inr c \<Rightarrow> Inr (st\<lparr>groupedServices := c,
                        filteredDataServices := filteredDataServices st @ [dataservice]\<rparr>)))
          else if eqLit (svc_type dataservice) ''external'' then
            (case addService env dataservice (svc_name dataservice) (groupedServices st) of
               Inl e \<Rightarrow> Inl e
             | Inr c \<Rightarrow> Inr (st\<lparr>groupedServices := c,
                   filteredDataServices := filteredDataServices st @ [dataservice]\<rparr>))
          else Inr st)"

section \<open>Plugins\<close>

text \<open>
  A field of a plugin object that its prototype holds as \<^verbatim>\<open>null\<close>: the value the definition
  gave it, and the prototype's \<^verbatim>\<open>null\<close> when the definition has none.
\<close>

definition orNull :: "jsval \<Rightarrow> jsval" where
  "orNull v = (if v = JUndefined then JNull else v)"

text \<open>
  \<^verbatim>\<open>function Plugin(def, configuration)\<close>, called by every plug-in constructor on its own
  \<^verbatim>\<open>this\<close>: the prototype is an argument here. The fields of the definition are copied
  (\<^verbatim>\<open>Object.assign(this, def)\<close>). Where the definition has no \<^verbatim>\<open>identifier\<close>,
  \<^verbatim>\<open>pluginVersion\<close>, \<^verbatim>\<open>apiVersion\<close>, \<^verbatim>\<open>pluginType\<close> or \<^verbatim>\<open>location\<close>, the object reads the
  \<^verbatim>\<open>null\<close> of \<^verbatim>\<open>Plugin.prototype\<close>; \<^verbatim>\<open>NodeAuthenticationPlugIn.prototype\<close> adds \<^verbatim>\<open>null\<close> for
  \<^verbatim>\<open>filename\<close> and \<^verbatim>\<open>authenticationCategory\<close>; \<^verbatim>\<open>host\<close> and \<^verbatim>\<open>port\<close> have no such default. The
  fields the loader adds later start out absent, and a falsy location becomes the working
  directory.
\<close>

definition Plugin :: "host_env \<Rightarrow> plugin_class \<Rightarrow> pluginDef \<Rightarrow> newPlugin" where
  "Plugin env proto def =
     (let this =
            \<lparr>identifier = orNull (identifier def), pluginVersion = orNull (pluginVersion def),
             apiVersion = orNull (apiVersion def), pluginType = orNull (pluginType def),
             webContent = webContent def, location = orNull (location def),
             dataServices = dataServices def, host = host def, port = port def,
             filename = (if proto = NodeAuthenticationPlugIn then orNull (filename def)
                         else filename def),
             authenticationCategory =
               (if proto = NodeAuthenticationPlugIn then orNull (authenticationCategory def)
                else authenticationCategory def),
             plugin_proto = proto, dataServicesGrouped = None, importsGrouped = None,
             dynamicallyCreated = False, authenticationModule = False\<rparr>
      in if \<not> truthy (location this) then this\<lparr>location := JStr (cwd env)\<rparr> else this)"

text \<open>
  \<^verbatim>\<open>function ProxyConnectorPlugIn(def, configuration)\<close>. Both assignments of its second
  half are to \<^verbatim>\<open>this.host\<close>, as in the source.
\<close>

definition ProxyConnectorPlugIn_new :: "host_env \<Rightarrow> pluginDef \<Rightarrow> configuration \<Rightarrow> newPlugin" where
  "ProxyConnectorPlugIn_new env def configuration =
     (let this = Plugin env ProxyConnectorPlugIn def
      in case configuration of
           None \<Rightarrow> this
         | Some remoteConfig \<Rightarrow>
             (let this = (if \<not> truthy (host this)
                          then this\<lparr>host := rc_host remoteConfig\<rparr> else this);
                  this = (if \<not> truthy (port this)
                          then this\<lparr>host := rc_port remoteConfig\<rparr> else this)
              in this))"

text \<open>
  The table \<^verbatim>\<open>plugInConstructorsByType\<close>, read with \<^verbatim>\<open>def.pluginType\<close> as the key. The
  properties every object inherits (\<^verbatim>\<open>constructor\<close>, \<^verbatim>\<open>toString\<close>, ...) are not plug-in
  constructors; using one as a plugin type fails later in the source, here at the lookup.
\<close>

definition plugInConstructorsByType :: "jsval \<Rightarrow> plugin_class option" where
  "plugInConstructorsByType t =
     map_of [(''library'', LibraryPlugIn),
             (''application'', ApplicationPlugIn),
             (''windowManager'', WindowManagerPlugIn),
             (''bootstrap'', BootstrapPlugIn),
             (''desktop'', DesktopPlugIn),
             (''nodeAuthentication'', NodeAuthenticationPlugIn),
             (''proxyConnector'', ProxyConnectorPlugIn)] (toPropertyKey t)"

definition makePlugin :: "host_env \<Rightarrow> pluginDef \<Rightarrow> configuration \<Rightarrow> error + newPlugin" where
  "makePlugin env def pluginConfiguration =
     (case plugInConstructorsByType (pluginType def) of
        None \<Rightarrow> Inl (UnknownPluginType (identifier def) (pluginType def))
      | Some ProxyConnectorPlugIn \<Rightarrow> Inr (ProxyConnectorPlugIn_new env def pluginConfiguration)
      | Some pluginConstr \<Rightarrow> Inr (Plugin env pluginConstr def))"

text \<open>\<^verbatim>\<open>Plugin.prototype.isValid\<close>; its result is used for its truthiness only.\<close>

definition Plugin_isValid :: "('s, 'z) plugin_def_scheme \<Rightarrow> bool" where
  "Plugin_isValid this =
     (truthy (identifier this) \<and> isString (identifier this)
      \<and> truthy (pluginVersion this) \<and> isString (pluginVersion this)
      \<and> truthy (apiVersion this) \<and> isString (apiVersion this)
      \<and> truthy (pluginType this) \<and> isString (pluginType this))"

text \<open>
  \<^verbatim>\<open>NodeAuthenticationPlugIn.prototype.isValid(context)\<close>. With no authentication manager
  the call \<^verbatim>\<open>context.authManager.authPluginRequested\<close> throws.
\<close>

definition NodeAuthenticationPlugIn_isValid :: "host_env \<Rightarrow> ('s, 'z) plugin_def_scheme \<Rightarrow> error + bool" where
  "NodeAuthenticationPlugIn_isValid env this =
     (if \<not> (Plugin_isValid this \<and> truthy (filename this)
              \<and> truthy (authenticationCategory this)) then Inr False
      else (case authManager env of
              None \<Rightarrow> Inl TypeError
            | Some authPluginRequested \<Rightarrow>
                if \<not> authPluginRequested (identifier this) (authenticationCategory this)
                then Inr False
                else Inr True))"

text \<open>\<^verbatim>\<open>ProxyConnectorPlugIn.prototype.isValid(context)\<close>\<close>

definition ProxyConnectorPlugIn_isValid :: "host_env \<Rightarrow> ('s, 'z) plugin_def_scheme \<Rightarrow> error + bool" where
  "ProxyConnectorPlugIn_isValid env this =
     (if \<not> (Plugin_isValid this \<and> truthy (host this) \<and> truthy (port this)) then Inr False
      else (case authManager env of
              None \<Rightarrow> Inl TypeError
            | Some authPluginRequested \<Rightarrow>
                if \<not> authPluginRequested (identifier this) (authenticationCategory this)
                then Inr False
                else Inr True))"

text \<open>\<^verbatim>\<open>plugin.isValid(context)\<close>, dispatched on the prototype.\<close>

definition isValid :: "host_env \<Rightarrow> ('s, 'z) plugin_scheme \<Rightarrow> error + bool" where
  "isValid env this =
     (case plugin_proto this of
        NodeAuthenticationPlugIn \<Rightarrow> NodeAuthenticationPlugIn_isValid env this
      | ProxyConnectorPlugIn \<Rightarrow> ProxyConnectorPlugIn_isValid env this
      | _ \<Rightarrow> Inr (Plugin_isValid this))"

text \<open>The plugin object with \<^verbatim>\<open>this.dataServices\<close> replaced.\<close>

definition withDataServices :: "'a plugin \<Rightarrow> 'b list option \<Rightarrow> 'b plugin" where
  "withDataServices this ds =
     \<lparr>identifier = identifier this, pluginVersion = pluginVersion this,
      apiVersion = apiVersion this, pluginType = pluginType this,
      webContent = webContent this, location = location this,
      dataServices = ds, host = host this, port = port this,
      filename = filename this, authenticationCategory = authenticationCategory this,
      plugin_proto = plugin_proto this, dataServicesGrouped = dataServicesGrouped this,
      importsGrouped = importsGrouped this, dynamicallyCreated = dynamicallyCreated this,
      authenticationModule = authenticationModule this\<rparr>"

text \<open>
  \<^verbatim>\<open>Plugin.prototype.initDataServices(context)\<close>: nothing happens without \<^verbatim>\<open>dataServices\<close>;
  otherwise both containers start empty, the loop runs, and \<^verbatim>\<open>this.dataServices\<close> becomes
  the list of the services kept.
\<close>

definition initDataServices :: "host_env \<Rightarrow> newPlugin \<Rightarrow> error + loadedPlugin" where
  "initDataServices env this =
     (case dataServices this of
        None \<Rightarrow> Inr (withDataServices this None)
      | Some defs \<Rightarrow>
          (case forEach (initDataService env this) defs
                  \<lparr>groupedServices = [], groupedImports = [], filteredDataServices = []\<rparr> of
             Inl e \<Rightarrow> Inl e
           | Inr st \<Rightarrow>
               Inr ((withDataServices this (Some (filteredDataServices st)))
                      \<lparr>dataServicesGrouped := Some (groupedServices st),
                       importsGrouped := Some (groupedImports st)\<rparr>)))"

text \<open>
  \<^verbatim>\<open>Plugin.prototype.initStaticWebDependencies()\<close>. \<^verbatim>\<open>path.join\<close> throws on a location
  that is not a string; the path it returns is written here without its normalisation.
\<close>

definition initStaticWebDependencies :: "host_env \<Rightarrow> loadedPlugin \<Rightarrow> error + loadedPlugin" where
  "initStaticWebDependencies env this =
     (case webContent this of
        None \<Rightarrow> Inr this
      | Some wc \<Rightarrow>
          (case location this of
             JStr l \<Rightarrow>
               if \<not> webDirExists env l then Inr this
               else Inr (this\<lparr>webContent := Some (wc\<lparr>wc_path := Some (l @ ''/web'')\<rparr>)\<rparr>)
           | _ \<Rightarrow> Inl TypeError))"

text \<open>
  \<^verbatim>\<open>LibraryPlugIn.prototype.init(context)\<close>. The warning for a missing library path reads
  \<^verbatim>\<open>def.identifier\<close>, and no \<^verbatim>\<open>def\<close> is in scope there.
\<close>

definition LibraryPlugIn_init :: "host_env \<Rightarrow> loadedPlugin \<Rightarrow> error + loadedPlugin" where
  "LibraryPlugIn_init env this =
     (if \<not> eqLit (pluginType this) ''library'' then Inl AssertionError
      else if \<not> existsSync env (location this) then Inl ReferenceError
      else Inr this)"

text \<open>
  \<^verbatim>\<open>NodeAuthenticationPlugIn.prototype.init(context)\<close>. What \<^verbatim>\<open>registerAuthenticator\<close>
  does inside the authentication manager is outside the loader.
\<close>

definition NodeAuthenticationPlugIn_init :: "host_env \<Rightarrow> loadedPlugin \<Rightarrow> error + loadedPlugin" where
  "NodeAuthenticationPlugIn_init env this =
     (if \<not> requireLib env (location this) (filename this) then Inl ModuleLoadError
      else (case authManager env of
              None \<Rightarrow> Inl TypeError
            | Some authPluginRequested \<Rightarrow> Inr (this\<lparr>authenticationModule := True\<rparr>)))"

text \<open>
  \<^verbatim>\<open>plugin.init(context)\<close>, dispatched on the prototype; \<^verbatim>\<open>Plugin.prototype.init\<close> only
  warns.
\<close>

definition init :: "host_env \<Rightarrow> loadedPlugin \<Rightarrow> error + loadedPlugin" where
  "init env this =
     (case plugin_proto this of
        LibraryPlugIn \<Rightarrow> LibraryPlugIn_init env this
      | NodeAuthenticationPlugIn \<Rightarrow> NodeAuthenticationPlugIn_init env this
      | _ \<Rightarrow> Inr this)"

section \<open>The plugin loader\<close>

text \<open>
  The lines \<^verbatim>\<open>installPlugins\<close> and \<^verbatim>\<open>addDynamicPlugin\<close> write to the bootstrap logger
  themselves (the lines written inside the calls they make are not recorded):
  \<^item> \<open>CouldNotInitialize pluginId status\<close>: the warning for a reject of the dependency graph;
  \<^item> \<open>InvalidDefinitionSkipped location\<close>: the warning before \<^verbatim>\<open>continue\<close>;
  \<^item> \<open>FailedToLoad identifier e\<close>: the line of the \<^verbatim>\<open>catch\<close> block;
  \<^item> \<open>PluginLoaded identifier location\<close>: the line after a successful \<^verbatim>\<open>init\<close>;
  \<^item> \<open>BatchProcessed successCount total\<close>: the line after the loop;
  \<^item> \<open>AddingDynamicPlugin identifier\<close>.
\<close>

datatype log_line =
    CouldNotInitialize jsval string
  | InvalidDefinitionSkipped jsval
  | FailedToLoad jsval error
  | PluginLoaded jsval jsval
  | BatchProcessed nat nat
  | AddingDynamicPlugin jsval

text \<open>
  The events the loader emits, with their \<^verbatim>\<open>data\<close>. What the listeners do with them is
  outside the loader.
\<close>

datatype event = GivePluginAmount nat | PluginAdded loadedPlugin

text \<open>
  The loader: \<^verbatim>\<open>this.plugins\<close>, \<^verbatim>\<open>this.pluginMap\<close> (an object used as a dictionary), and
  what it has emitted and logged so far, oldest first.
\<close>

record loader =
  plugins :: "loadedPlugin list"
  pluginMap :: "(string \<times> loadedPlugin) list"
  emitted :: "event list"
  logged :: "log_line list"

text \<open>\<^verbatim>\<open>new PluginLoader(options)\<close>\<close>

definition PluginLoader :: loader where
  "PluginLoader = \<lparr>plugins = [], pluginMap = [], emitted = [], logged = []\<rparr>"

text \<open>
  The \<^verbatim>\<open>try\<close> block of \<^verbatim>\<open>installPlugins\<close> for one definition, up to the point where the
  loader itself is changed: \<open>Inl e\<close> when it throws \<open>e\<close>, \<open>Inr None\<close> when it leaves by
  \<^verbatim>\<open>continue\<close>, \<open>Inr (Some plugin)\<close> when the plugin is ready to be stored. Nothing in it
  reads or writes the loader.
\<close>

definition loadPlugin :: "host_env \<Rightarrow> pluginDef \<Rightarrow> error + loadedPlugin option" where
  "loadPlugin env pluginDef =
     (let pluginConfiguration = getPluginConfiguration env (identifier pluginDef)
      in case makePlugin env pluginDef pluginConfiguration of
           Inl e \<Rightarrow> Inl e
         | Inr plugin \<Rightarrow>
             (case isValid env plugin of
                Inl e \<Rightarrow> Inl e
              | Inr ok \<Rightarrow>
                  if \<not> ok then Inr None
                  else (case initDataServices env plugin of
                          Inl e \<Rightarrow> Inl e
                        | Inr plugin \<Rightarrow>
                            (case initStaticWebDependencies env plugin of
                               Inl e \<Rightarrow> Inl e
                             | Inr plugin \<Rightarrow>
                                 (case init env plugin of
                                    Inl e \<Rightarrow> Inl e
                                  | Inr plugin \<Rightarrow> Inr (Some plugin))))))"

text \<open>
  One turn of the loop over the sorted definitions, on the loader and \<^verbatim>\<open>successCount\<close>:
  the \<^verbatim>\<open>catch\<close> block logs, the \<^verbatim>\<open>continue\<close> branch warns, and a plugin that is ready is
  pushed, entered in the map and counted.
\<close>

definition installPlugin :: "host_env \<Rightarrow> pluginDef \<Rightarrow> loader \<times> nat \<Rightarrow> loader \<times> nat" where
  "installPlugin env pluginDef st =
     (let this = fst st; successCount = snd st
      in case loadPlugin env pluginDef of
           Inl e \<Rightarrow>
             (this\<lparr>logged := logged this @ [FailedToLoad (identifier pluginDef) e]\<rparr>,
              successCount)
         | Inr None \<Rightarrow>
             (this\<lparr>logged := logged this @ [InvalidDefinitionSkipped (location pluginDef)]\<rparr>,
              successCount)
         | Inr (Some plugin) \<Rightarrow>
             (this\<lparr>plugins := plugins this @ [plugin],
                   pluginMap := AList.update (toPropertyKey (identifier plugin)) plugin
                                  (pluginMap this),
                   logged := logged this
                             @ [PluginLoaded (identifier plugin) (location plugin)]\<rparr>,
              Suc successCount))"

text \<open>
  \<^verbatim>\<open>PluginLoader.prototype.installPlugins(pluginDefs)\<close>: the dependency graph sorts and
  rejects, every reject is logged, every sorted definition goes through the loop, and at
  the end the amount and then every plugin of \<^verbatim>\<open>this.plugins\<close> are emitted.
\<close>

definition installPlugins :: "host_env \<Rightarrow> pluginDef list \<Rightarrow> loader \<Rightarrow> loader" where
  "installPlugins env pluginDefs this =
     (let sortedAndRejectedPlugins = processImports env (plugins this) pluginDefs;
          this = this\<lparr>logged := logged this
                   @ map (\<lambda>rejectedPlugin. CouldNotInitialize (pluginId rejectedPlugin)
                                             (status rejectedPlugin))
                       (snd sortedAndRejectedPlugins)\<rparr>;
          st = fold (installPlugin env) (fst sortedAndRejectedPlugins) (this, 0);
          this = (fst st)\<lparr>logged := logged (fst st)
                   @ [BatchProcessed (snd st) (length pluginDefs)]\<rparr>;
          this = this\<lparr>emitted := emitted this @ [GivePluginAmount (length (plugins this))]\<rparr>
      in this\<lparr>emitted := emitted this @ map PluginAdded (plugins this)\<rparr>)"

text \<open>
  \<^verbatim>\<open>PluginLoader.prototype.addDynamicPlugin(pluginDef)\<close>: the result of the call (\<open>Inl e\<close>
  when it throws \<open>e\<close>) and the loader after it. Neither \<^verbatim>\<open>isValid\<close> nor
  \<^verbatim>\<open>initStaticWebDependencies\<close> is called here.
\<close>

definition addDynamicPlugin :: "host_env \<Rightarrow> pluginDef \<Rightarrow> loader \<Rightarrow> (error + unit) \<times> loader" where
  "addDynamicPlugin env pluginDef this =
     (if map_of (pluginMap this) (toPropertyKey (identifier pluginDef)) \<noteq> None
      then (Inl AlreadyRegistered, this)
      else
        (let this = this\<lparr>logged := logged this @ [AddingDynamicPlugin (identifier pluginDef)]\<rparr>;
             pluginConfiguration = getPluginConfiguration env (identifier pluginDef)
         in case makePlugin env pluginDef pluginConfiguration of
              Inl e \<Rightarrow> (Inl e, this)
            | Inr plugin \<Rightarrow>
                (case initDataServices env (plugin\<lparr>dynamicallyCreated := True\<rparr>) of
                   Inl e \<Rightarrow> (Inl e, this)
                 | Inr plugin \<Rightarrow>
                     (case init env plugin of
                        Inl e \<Rightarrow> (Inl e, this)
                      | Inr plugin \<Rightarrow>
                          (Inr (),
                           this\<lparr>plugins := plugins this @ [plugin],
                                 pluginMap := AList.update (toPropertyKey (identifier plugin))
                                                plugin (pluginMap this),
                                 emitted := emitted this @ [PluginAdded plugin]\<rparr>)))))"

section \<open>A sample host\<close>

text \<open>
  Concrete collaborators, for evaluating the loader on concrete definitions. The version
  functions stand in for the \<^verbatim>\<open>semver\<close> package on plain versions
  \<^verbatim>\<open>MAJOR.MINOR.PATCH\<close> (numeric identifiers without leading zeros, no prefix, no
  pre-release or build part) and on the ranges \<^verbatim>\<open>*\<close>, a plain version, or a plain version
  after \<^verbatim>\<open>^\<close> or \<^verbatim>\<open>~\<close>; they take every other text for invalid.
\<close>

fun splitOn :: "char \<Rightarrow> string \<Rightarrow> string list" where
  "splitOn c [] = [[]]"
| "splitOn c (x # xs) =
     (if x = c then [] # splitOn c xs
      else (case splitOn c xs of
              [] \<Rightarrow> [[x]]
            | y # ys \<Rightarrow> (x # y) # ys))"

definition isDigit :: "char \<Rightarrow> bool" where
  "isDigit c = (48 \<le> (of_char c :: nat) \<and> (of_char c :: nat) \<le> 57)"

definition numericIdentifier :: "string \<Rightarrow> nat option" where
  "numericIdentifier s =
     (if s \<noteq> [] \<and> list_all isDigit s \<and> (length s = 1 \<or> hd s \<noteq> CHR ''0'')
      then Some (foldl (\<lambda>n c. 10 * n + (of_char c - 48)) 0 s)
      else None)"

definition parseVersion :: "string \<Rightarrow> (nat \<times> nat \<times> nat) option" where
  "parseVersion s =
     (case map numericIdentifier (splitOn (CHR ''.'') s) of
        [Some major, Some minor, Some patch] \<Rightarrow> Some (major, minor, patch)
      | _ \<Rightarrow> None)"

fun versionLess :: "nat \<times> nat \<times> nat \<Rightarrow> nat \<times> nat \<times> nat \<Rightarrow> bool" where
  "versionLess (a, b, c) (a', b', c') = (a < a' \<or> (a = a' \<and> (b < b' \<or> (b = b' \<and> c < c'))))"

fun plainValid :: "jsval \<Rightarrow> bool" where
  "plainValid (JStr s) = (parseVersion s \<noteq> None)"
| "plainValid v = False"

fun plainValidRange :: "jsval \<Rightarrow> bool" where
  "plainValidRange (JStr s) =
     (s = ''*'' \<or> parseVersion s \<noteq> None
      \<or> (case s of
            [] \<Rightarrow> False
          | c # r \<Rightarrow> (c = CHR ''^'' \<or> c = CHR ''~'') \<and> parseVersion r \<noteq> None))"
| "plainValidRange v = False"

fun plainGt :: "jsval \<Rightarrow> jsval \<Rightarrow> bool option" where
  "plainGt (JStr a) (JStr b) =
     (case parseVersion a of
        None \<Rightarrow> None
      | Some x \<Rightarrow>
          (case parseVersion b of
             None \<Rightarrow> None
           | Some y \<Rightarrow> Some (versionLess y x)))"
| "plainGt a b = None"

text \<open>
  Modelled from the spec: the dependency graph \<^verbatim>\<open>./depgraph\<close> is not among the sources.
  On a batch in which no definition declares a service or an import and no identifier
  occurs twice, the spec's \<^verbatim>\<open>processImports\<close> rejects nothing (a plugin with zero import
  requests has no graph predecessors and is always eligible for ordering) and orders the
  plugins by first-seen insertion order. This is that result, used on such batches only.
\<close>

definition insertionOrder :: "loadedPlugin list \<Rightarrow> pluginDef list \<Rightarrow> pluginDef list \<times> reject list" where
  "insertionOrder existing defs = (defs, [])"

text \<open>
  The sample host: no remote configuration, an authentication manager that was asked
  for the plugin \<^verbatim>\<open>org.zowe.auth\<close> in the category \<^verbatim>\<open>saf\<close> only, modules and directories that
  are all there.
\<close>

definition sampleHost :: host_env where
  "sampleHost =
     \<lparr>semver_valid = plainValid, semver_validRange = plainValidRange, semver_gt = plainGt,
      getServiceConfiguration = (\<lambda>pluginId serviceName. None),
      getPluginConfiguration = (\<lambda>pluginId. None),
      authManager = Some (\<lambda>pluginId category.
                            pluginId = JStr ''org.zowe.auth'' \<and> category = JStr ''saf''),
      requireFromString = (\<lambda>source. True),
      requireLib = (\<lambda>location filename. True),
      existsSync = (\<lambda>location. True),
      webDirExists = (\<lambda>location. True),
      cwd = ''/zlux'',
      processImports = insertionOrder\<rparr>"

text \<open>A remote configuration \<^verbatim>\<open>{"host": "remote.example.com", "port": 8542}\<close>.\<close>

definition sampleRemote :: remote_config where
  "sampleRemote = \<lparr>rc_host = JStr ''remote.example.com'', rc_port = JNum 8542\<rparr>"

text \<open>The definitions \<^verbatim>\<open>{}\<close>: every field absent.\<close>

definition noService :: service_def where
  "noService =
     \<lparr>svc_type = JUndefined, svc_name = JUndefined, svc_version = JUndefined,
      svc_versionRange = JUndefined, svc_localName = JUndefined, svc_sourceName = JUndefined,
      svc_sourcePlugin = JUndefined, svc_host = JUndefined, svc_port = JUndefined,
      svc_filename = JUndefined, svc_fileName = JUndefined, svc_source = JUndefined\<rparr>"

definition noPlugin :: pluginDef where
  "noPlugin =
     \<lparr>identifier = JUndefined, pluginVersion = JUndefined, apiVersion = JUndefined,
      pluginType = JUndefined, webContent = None, location = JUndefined,
      dataServices = None, host = JUndefined, port = JUndefined, filename = JUndefined,
      authenticationCategory = JUndefined\<rparr>"

text \<open>
  A well-formed definition of the given identifier and type:
  \<^verbatim>\<open>{"identifier": id, "pluginVersion": "1.0.0", "apiVersion": "1.0.0", "pluginType": type, "location": "/plugins"}\<close>.
\<close>

definition samplePlugin :: "string \<Rightarrow> string \<Rightarrow> pluginDef" where
  "samplePlugin ident type =
     noPlugin\<lparr>identifier := JStr ident, pluginVersion := JStr ''1.0.0'',
              apiVersion := JStr ''1.0.0'', pluginType := JStr type,
              location := JStr ''/plugins''\<rparr>"

section \<open>Sample definitions\<close>

text \<open>
  An import whose version range is no range:
  \<^verbatim>\<open>{"type": "import", "localName": "greeter", "sourceName": "hello", "sourcePlugin": "org.zowe.sample", "versionRange": "newest"}\<close>,
  and an application plugin that declares it.
\<close>

definition badRangeService :: service_def where
  "badRangeService =
     noService\<lparr>svc_type := JStr ''import'', svc_localName := JStr ''greeter'',
               svc_sourceName := JStr ''hello'', svc_sourcePlugin := JStr ''org.zowe.sample'',
               svc_versionRange := JStr ''newest''\<rparr>"

definition badRangePlugin :: pluginDef where
  "badRangePlugin =
     (samplePlugin ''org.zowe.client'' ''application'')\<lparr>dataServices := Some [badRangeService]\<rparr>"

text \<open>
  A service without a version, \<^verbatim>\<open>{"type": "service", "name": "hello"}\<close>.
\<close>

definition helloService :: service_def where
  "helloService = noService\<lparr>svc_type := JStr ''service'', svc_name := JStr ''hello''\<rparr>"

text \<open>An application plugin of the API version 1.0.0 that declares this service.\<close>

definition helloPlugin :: pluginDef where
  "helloPlugin =
     (samplePlugin ''org.zowe.sample'' ''application'')\<lparr>dataServices := Some [helloService]\<rparr>"

text \<open>
  The same service with a version that is no version,
  \<^verbatim>\<open>{"type": "service", "name": "hello", "version": "one"}\<close>, and an application plugin that
  declares it.
\<close>

definition badVersionService :: service_def where
  "badVersionService = helloService\<lparr>svc_version := JStr ''one''\<rparr>"

definition badVersionPlugin :: pluginDef where
  "badVersionPlugin =
     (samplePlugin ''org.zowe.sample'' ''application'')\<lparr>dataServices := Some [badVersionService]\<rparr>"

text \<open>
  A proxy connector without host and port, and a host whose configuration service has
  the remote configuration for every plugin and whose authentication manager was asked
  for every plugin.
\<close>

definition proxyPlugin :: pluginDef where
  "proxyPlugin = samplePlugin ''org.zowe.proxy'' ''proxyConnector''"

definition remoteHost :: host_env where
  "remoteHost = sampleHost\<lparr>getPluginConfiguration := (\<lambda>pluginId. Some sampleRemote),
                            authManager := Some (\<lambda>pluginId category. True)\<rparr>"

text \<open>
  An authentication plugin of the category \<^verbatim>\<open>saf\<close> with the handler \<^verbatim>\<open>safAuth.js\<close>.
\<close>

definition authPlugin :: "string \<Rightarrow> pluginDef" where
  "authPlugin ident =
     (samplePlugin ident ''nodeAuthentication'')
       \<lparr>filename := JStr ''safAuth.js'', authenticationCategory := JStr ''saf''\<rparr>"

text \<open>An application plugin whose definition has no identifier.\<close>

definition anonymousPlugin :: pluginDef where
  "anonymousPlugin = noPlugin\<lparr>pluginType := JStr ''application''\<rparr>"

text \<open>A definition of a plugin type the loader does not know.\<close>

definition widgetPlugin :: pluginDef where
  "widgetPlugin = samplePlugin ''org.zowe.widget'' ''widget''"

text \<open>
  A fresh loader after a batch with the one plugin \<^verbatim>\<open>org.zowe.one\<close>, and that loader after
  a second batch with the one plugin \<^verbatim>\<open>org.zowe.two\<close>.
\<close>

definition firstLoader :: loader where
  "firstLoader = installPlugins sampleHost [samplePlugin ''org.zowe.one'' ''application''] PluginLoader"

definition secondLoader :: loader where
  "secondLoader = installPlugins sampleHost [samplePlugin ''org.zowe.two'' ''application''] firstLoader"

section \<open>Reading the result of a batch\<close>

text \<open>
  Names for what the loop of \<^verbatim>\<open>installPlugins\<close> does with a list of sorted definitions:
  \<open>pushed\<close> are the plugins it pushes to \<^verbatim>\<open>this.plugins\<close>, in order; \<open>outcome\<close> is the line it
  logs for one definition; \<open>dropped\<close> says that a definition is not pushed (its \<^verbatim>\<open>try\<close> block
  ends in \<^verbatim>\<open>continue\<close> or in the \<^verbatim>\<open>catch\<close> block); \<open>register\<close> is the assignment
  \<^verbatim>\<open>this.pluginMap[plugin.identifier] = plugin\<close>.
\<close>

definition pushed :: "host_env \<Rightarrow> pluginDef list \<Rightarrow> loadedPlugin list" where
  "pushed env sortedDefs =
     List.map_filter (\<lambda>pluginDef. case loadPlugin env pluginDef of
                                     Inl e \<Rightarrow> None
                                   | Inr ready \<Rightarrow> ready) sortedDefs"

definition outcome :: "host_env \<Rightarrow> pluginDef \<Rightarrow> log_line" where
  "outcome env pluginDef =
     (case loadPlugin env pluginDef of
        Inl e \<Rightarrow> FailedToLoad (identifier pluginDef) e
      | Inr None \<Rightarrow> InvalidDefinitionSkipped (location pluginDef)
      | Inr (Some plugin) \<Rightarrow> PluginLoaded (identifier plugin) (location plugin))"

definition register :: "loadedPlugin \<Rightarrow> (string \<times> loadedPlugin) list \<Rightarrow> (string \<times> loadedPlugin) list" where
  "register plugin m = AList.update (toPropertyKey (identifier plugin)) plugin m"


section \<open>The states of a loader\<close>


section \<open>The highest version of a group\<close>

text \<open>
  What is used of the \<^verbatim>\<open>semver\<close> package: \<^verbatim>\<open>semver.gt\<close> answers \<^verbatim>\<open>true\<close> only on two truthy
  values (it throws on everything but a non-empty string); no version is greater than
  itself; and greater-than is transitive. Nothing is assumed of \<^verbatim>\<open>semver.valid\<close>.
\<close>

definition semverContract :: "host_env \<Rightarrow> bool" where
  "semverContract env =
     ((\<forall>a b. semver_gt env a b = Some True \<longrightarrow> truthy a \<and> truthy b)
      \<and> (\<forall>a. semver_gt env a a \<noteq> Some True)
      \<and> (\<forall>a b c. semver_gt env a b = Some True \<and> semver_gt env b c = Some True
                   \<longrightarrow> semver_gt env a c = Some True))"

text \<open>
  \<^verbatim>\<open>highestVersion\<close> is the maximum of the versions of a group: it is the key of one of the
  entries of \<^verbatim>\<open>versions\<close>, every entry is stored under the key of its service's version,
  and \<^verbatim>\<open>semver.gt\<close> says of no stored version that it is greater than \<^verbatim>\<open>highestVersion\<close>.
\<close>

definition highestIsMaximum :: "host_env \<Rightarrow> service_group \<Rightarrow> bool" where
  "highestIsMaximum env g =
     (toPropertyKey (highestVersion g) \<in> fst ` set (versions g)
      \<and> (\<forall>k s. map_of (versions g) k = Some s \<longrightarrow>
             k = toPropertyKey (svc_version s)
             \<and> semver_gt env (svc_version s) (highestVersion g) \<noteq> Some True))"

text \<open>
  As long as \<^verbatim>\<open>highestVersion\<close> is falsy, every version stored in the group is falsy: such a
  group takes the next version as its highest without comparing.
\<close>

definition neverTruthy :: "service_group \<Rightarrow> bool" where
  "neverTruthy g =
     (\<not> truthy (highestVersion g) \<longrightarrow>
        (\<forall>k s. map_of (versions g) k = Some s \<longrightarrow> \<not> truthy (svc_version s)))"

text \<open>
  \<open>groupAt container name\<close> is the group \<^verbatim>\<open>addService\<close> works on: the one stored under
  the name, or a new one. \<open>inserted env service g g'\<close> says that \<open>g'\<close> is that group after
  \<^verbatim>\<open>addService\<close> has returned. A container keeps the invariant when each of its groups
  has its highest version as maximum and is falsy throughout while its highest version is.
\<close>

definition inserted :: "host_env \<Rightarrow> service \<Rightarrow> service_group \<Rightarrow> service_group \<Rightarrow> bool" where
  "inserted env service g g' =
     (versions g' = AList.update (toPropertyKey (svc_version service)) service (versions g)
      \<and> (if \<not> truthy (highestVersion g)
             \<or> semver_gt env (svc_version service) (highestVersion g) = Some True
          then highestVersion g' = svc_version service
          else highestVersion g' = highestVersion g
               \<and> semver_gt env (svc_version service) (highestVersion g) = Some False))"

definition groupAt :: "container \<Rightarrow> jsval \<Rightarrow> service_group" where
  "groupAt container name =
     (case map_of container (toPropertyKey name) of
        None \<Rightarrow> \<lparr>highestVersion = JNull, versions = []\<rparr>
      | Some g \<Rightarrow> g)"

definition containerInvariant :: "host_env \<Rightarrow> container \<Rightarrow> bool" where
  "containerInvariant env container =
     (\<forall>k g. map_of container k = Some g \<longrightarrow> highestIsMaximum env g \<and> neverTruthy g)"

text \<open>
  A plugin with the service \<^verbatim>\<open>hello\<close> in the versions 1.2.0, 2.0.0 and 1.0.0, in this order,
  and the group \<^verbatim>\<open>initDataServices\<close> builds for it.
\<close>

definition versionedService :: "string \<Rightarrow> service_def" where
  "versionedService v = helloService\<lparr>svc_version := JStr v\<rparr>"

definition versionedPlugin :: pluginDef where
  "versionedPlugin =
     (samplePlugin ''org.zowe.sample'' ''application'')
       \<lparr>dataServices := Some [versionedService ''1.2.0'', versionedService ''2.0.0'',
                              versionedService ''1.0.0'']\<rparr>"

definition helloGroup :: service_group where
  "helloGroup =
     \<lparr>highestVersion = JStr ''2.0.0'',
      versions = [(''1.2.0'', Service ServiceProto (versionedService ''1.2.0'') versionedPlugin),
                  (''2.0.0'', Service ServiceProto (versionedService ''2.0.0'') versionedPlugin),
                  (''1.0.0'', Service ServiceProto (versionedService ''1.0.0'') versionedPlugin)]\<rparr>"

section \<open>Constructors and the fields they leave alone\<close>

lemma Service_version:
  "svc_version (Service proto d plugin) = (if svc_version d = JUndefined then apiVersion plugin else svc_version d)"
  by (simp add: Service_def Object_assign_def Let_def)

lemma Service_fields [simp]:
  "svc_type (Service proto d plugin) = svc_type d"
  "svc_name (Service proto d plugin) = svc_name d"
  "svc_versionRange (Service proto d plugin) = svc_versionRange d"
  "svc_localName (Service proto d plugin) = svc_localName d"
  "svc_host (Service proto d plugin) = svc_host d"
  "svc_port (Service proto d plugin) = svc_port d"
  "svc_proto (Service proto d plugin) = proto"
  by (simp_all add: Service_def Object_assign_def Let_def)

lemma ExternalService_fields [simp]:
  "svc_type (ExternalService d cfg plugin) = svc_type d"
  "svc_name (ExternalService d cfg plugin) = svc_name d"
  "svc_version (ExternalService d cfg plugin) = svc_version (Service ServiceProto d plugin)"
  "svc_proto (ExternalService d cfg plugin) = ExternalServiceProto"
  by (simp_all add: ExternalService_def Let_def Service_version split: option.splits)

lemma makeDataService_import:
  "eqLit (svc_type d) ''import'' \<Longrightarrow>
   makeDataService env d plugin =
     (if \<not> semver_validRange env (svc_versionRange d)
      then Inl (InvalidVersionRange (svc_localName d) (svc_versionRange d))
      else Inr (Import d plugin))"
  by (simp add: makeDataService_def validate_def Import_def eqLit_def Let_def)

lemma makeDataService_exposed:
  "\<not> eqLit (svc_type d) ''import'' \<Longrightarrow>
   makeDataService env d plugin =
     (if \<not> semver_valid env (svc_version (Service ServiceProto d plugin))
      then Inl (InvalidVersion (svc_name d) (svc_version (Service ServiceProto d plugin)))
      else Inr (if eqLit (svc_type d) ''external''
                then ExternalService d (getServiceConfiguration env (identifier plugin) (svc_name d)) plugin
                else if eqLit (svc_type d) ''nodeService'' \<or> eqLit (svc_type d) ''router''
                then NodeService d plugin else Service ServiceProto d plugin))"
  by (simp add: makeDataService_def validate_def NodeService_def Let_def Service_version)

lemma forEach_fails:
  "x \<in> set xs \<Longrightarrow> (\<And>s. \<exists>e. body x s = Inl e) \<Longrightarrow> \<exists>e. forEach body xs s = Inl e"
proof (induction xs arbitrary: s)
  case Nil
  then show ?case by simp
next
  case (Cons a xs)
  show ?case
  proof (cases "body a s")
    case (Inl e)
    then show ?thesis by simp
  next
    case (Inr s')
    from Cons.prems(2) [of s] Inr have "x \<noteq> a" by auto
    with Cons.prems(1) have "x \<in> set xs" by simp
    from Cons.IH [OF this Cons.prems(2)] Inr show ?thesis by simp
  qed
qed

lemma initDataService_fails:
  "makeDataService env d this = Inl e \<Longrightarrow> initDataService env this d st = Inl e"
  by (simp add: initDataService_def)

lemma initDataServices_fails:
  assumes "dataServices this = Some defs" and "d \<in> set defs"
    and "makeDataService env d this = Inl e"
  shows "\<exists>e'. initDataServices env this = Inl e'"
proof -
  have "\<exists>e'. forEach (initDataService env this) defs st = Inl e'" for st
    using assms(2) by (rule forEach_fails) (simp add: initDataService_fails [OF assms(3)])
  then obtain e' where
    "forEach (initDataService env this) defs
       \<lparr>groupedServices = [], groupedImports = [], filteredDataServices = []\<rparr> = Inl e'"
    by blast
  with assms(1) show ?thesis by (simp add: initDataServices_def)
qed

lemma orNull_truthy [simp]: "truthy (orNull v) = truthy v"
  by (cases v) (simp_all add: orNull_def)

lemma orNull_isString [simp]: "isString (orNull v) = isString v"
  by (cases v) (simp_all add: orNull_def)

lemma orNull_id: "truthy v \<Longrightarrow> orNull v = v"
  by (cases v) (simp_all add: orNull_def)

lemma Plugin_fields [simp]:
  "identifier (Plugin env proto d) = orNull (identifier d)"
  "apiVersion (Plugin env proto d) = orNull (apiVersion d)"
  "pluginVersion (Plugin env proto d) = orNull (pluginVersion d)"
  "pluginType (Plugin env proto d) = orNull (pluginType d)"
  "dataServices (Plugin env proto d) = dataServices d"
  "filename (Plugin env proto d)
     = (if proto = NodeAuthenticationPlugIn then orNull (filename d) else filename d)"
  "authenticationCategory (Plugin env proto d)
     = (if proto = NodeAuthenticationPlugIn then orNull (authenticationCategory d)
        else authenticationCategory d)"
  "host (Plugin env proto d) = host d"
  "port (Plugin env proto d) = port d"
  "plugin_proto (Plugin env proto d) = proto"
  by (simp_all add: Plugin_def Let_def)

lemma ProxyConnectorPlugIn_new_fields [simp]:
  "identifier (ProxyConnectorPlugIn_new env d cfg) = orNull (identifier d)"
  "apiVersion (ProxyConnectorPlugIn_new env d cfg) = orNull (apiVersion d)"
  "pluginVersion (ProxyConnectorPlugIn_new env d cfg) = orNull (pluginVersion d)"
  "pluginType (ProxyConnectorPlugIn_new env d cfg) = orNull (pluginType d)"
  "dataServices (ProxyConnectorPlugIn_new env d cfg) = dataServices d"
  "filename (ProxyConnectorPlugIn_new env d cfg) = filename d"
  "authenticationCategory (ProxyConnectorPlugIn_new env d cfg) = authenticationCategory d"
  "port (ProxyConnectorPlugIn_new env d cfg) = port d"
  "plugin_proto (ProxyConnectorPlugIn_new env d cfg) = ProxyConnectorPlugIn"
  by (simp_all add: ProxyConnectorPlugIn_new_def Let_def split: option.splits)

lemma makePlugin_fields:
  assumes "makePlugin env d cfg = Inr this"
  shows "identifier this = orNull (identifier d)" and "apiVersion this = orNull (apiVersion d)"
    and "pluginVersion this = orNull (pluginVersion d)"
    and "pluginType this = orNull (pluginType d)"
    and "dataServices this = dataServices d"
    and "plugInConstructorsByType (pluginType d) = Some (plugin_proto this)"
  using assms
  by (auto simp: makePlugin_def split: option.splits plugin_class.splits)

section \<open>Validation of service descriptors\<close>

lemma loadPlugin_fails:
  assumes made: "makePlugin env pluginDef (getPluginConfiguration env (identifier pluginDef)) = Inr this"
    and init: "initDataServices env this = Inl e"
  shows "loadPlugin env pluginDef \<noteq> Inr (Some p)"
  using assms by (auto simp: loadPlugin_def Let_def split: sum.splits)

lemma makeDataService_dynamic:
  "makeDataService env d (this\<lparr>dynamicallyCreated := b\<rparr>) = makeDataService env d this"
  by (simp add: makeDataService_def ExternalService_def Import_def NodeService_def Service_def
        cong del: if_weak_cong)

lemma initDataServices_dynamic:
  "dataServices this = Some defs \<Longrightarrow> d \<in> set defs \<Longrightarrow> makeDataService env d this = Inl e \<Longrightarrow>
   \<exists>e'. initDataServices env (this\<lparr>dynamicallyCreated := True\<rparr>) = Inl e'"
  by (rule initDataServices_fails [where d = d and e = e])
     (simp_all add: makeDataService_dynamic)

text \<open>
  Claim C2 as stated fails. The service \<^verbatim>\<open>{"type": "service", "name": "hello"}\<close> is no
  import and its descriptor carries no version, so none that is a valid semantic version.
  In a plugin of the API version 1.0.0 its construction does not abort: the constructor
  gives it the version 1.0.0, \<^verbatim>\<open>makeDataService\<close> returns it, and the plugin is loaded.
\<close>

theorem C2_counterexample:
  "\<not> eqLit (svc_type helloService) ''import''
   \<and> svc_version helloService = JUndefined
   \<and> \<not> semver_valid sampleHost (svc_version helloService)
   \<and> makeDataService sampleHost helloService (Plugin sampleHost ApplicationPlugIn helloPlugin)
       = Inr (Service ServiceProto helloService (Plugin sampleHost ApplicationPlugIn helloPlugin))
   \<and> svc_version (Service ServiceProto helloService
                     (Plugin sampleHost ApplicationPlugIn helloPlugin)) = JStr ''1.0.0''
   \<and> map identifier (plugins (fst (installPlugin sampleHost helloPlugin (PluginLoader, 0))))
       = [JStr ''org.zowe.sample'']"
  by code_simp

text \<open>
  Claim C2, amended. Let a plugin definition list a service definition \<open>d\<close> among its
  \<^verbatim>\<open>dataServices\<close>, and let \<open>this\<close> be the plugin object made from it. If \<open>d\<close> is an
  import and its \<^verbatim>\<open>versionRange\<close> is no valid range, \<^verbatim>\<open>makeDataService\<close> throws the
  invalid-version-range error; if \<open>d\<close> is of any other type and the version of its service
  object (its own \<^verbatim>\<open>version\<close>, or the plugin's \<^verbatim>\<open>apiVersion\<close> when it has none) is no valid
  version, \<^verbatim>\<open>makeDataService\<close> throws the invalid-version error. In both cases
  \<^verbatim>\<open>initDataServices\<close> throws, the batch loop does not load the plugin and leaves
  \<^verbatim>\<open>plugins\<close> as it was, and \<^verbatim>\<open>addDynamicPlugin\<close> throws without adding it.
\<close>

theorem C2_invalid_descriptor_invalidates_plugin:
  assumes made: "makePlugin env pluginDef (getPluginConfiguration env (identifier pluginDef)) = Inr this"
    and defs: "dataServices pluginDef = Some defs" and d: "d \<in> set defs"
    and bad: "if eqLit (svc_type d) ''import''
              then \<not> semver_validRange env (svc_versionRange d)
              else \<not> semver_valid env (svc_version (Service ServiceProto d this))"
  shows "makeDataService env d this =
           Inl (if eqLit (svc_type d) ''import''
                then InvalidVersionRange (svc_localName d) (svc_versionRange d)
                else InvalidVersion (svc_name d) (svc_version (Service ServiceProto d this)))
         \<and> (\<exists>e. initDataServices env this = Inl e)
         \<and> (\<forall>p. loadPlugin env pluginDef \<noteq> Inr (Some p))
         \<and> plugins (fst (installPlugin env pluginDef (l, n))) = plugins l
         \<and> (\<exists>e. fst (addDynamicPlugin env pluginDef l) = Inl e)
         \<and> plugins (snd (addDynamicPlugin env pluginDef l)) = plugins l"
proof -
  let ?err = "if eqLit (svc_type d) ''import''
                then InvalidVersionRange (svc_localName d) (svc_versionRange d)
                else InvalidVersion (svc_name d) (svc_version (Service ServiceProto d this))"
  have mk: "makeDataService env d this = Inl ?err"
    using bad by (simp add: makeDataService_import makeDataService_exposed)
  have ds: "dataServices this = Some defs"
    using makePlugin_fields(5) [OF made] defs by simp
  from initDataServices_fails [OF ds d mk]
  obtain e where e: "initDataServices env this = Inl e" ..
  have notLoaded: "loadPlugin env pluginDef \<noteq> Inr (Some p)" for p
    using made e by (rule loadPlugin_fails)
  have unchanged: "plugins (fst (installPlugin env pluginDef (l, n))) = plugins l"
    using notLoaded by (auto simp: installPlugin_def Let_def split: sum.splits option.splits)
  from initDataServices_dynamic [OF ds d mk]
  obtain e' where e': "initDataServices env (this\<lparr>dynamicallyCreated := True\<rparr>) = Inl e'" ..
  have dyn: "(\<exists>e. fst (addDynamicPlugin env pluginDef l) = Inl e)
             \<and> plugins (snd (addDynamicPlugin env pluginDef l)) = plugins l"
    using made e' by (simp add: addDynamicPlugin_def Let_def)
  from mk e notLoaded unchanged dyn show ?thesis by blast
qed



theorem C2_witness:
  "makePlugin sampleHost badRangePlugin
       (getPluginConfiguration sampleHost (identifier badRangePlugin))
     = Inr (Plugin sampleHost ApplicationPlugIn badRangePlugin)
   \<and> dataServices badRangePlugin = Some [badRangeService]
   \<and> badRangeService \<in> set [badRangeService]
   \<and> eqLit (svc_type badRangeService) ''import''
   \<and> \<not> semver_validRange sampleHost (svc_versionRange badRangeService)
   \<and> makeDataService sampleHost badRangeService (Plugin sampleHost ApplicationPlugIn badRangePlugin)
       = Inl (InvalidVersionRange (JStr ''greeter'') (JStr ''newest''))
   \<and> (\<exists>e. initDataServices sampleHost (Plugin sampleHost ApplicationPlugIn badRangePlugin) = Inl e)
   \<and> plugins (fst (installPlugin sampleHost badRangePlugin (PluginLoader, 0))) = []
   \<and> (\<exists>e. fst (addDynamicPlugin sampleHost badRangePlugin PluginLoader) = Inl e)
   \<and> makePlugin sampleHost badVersionPlugin
       (getPluginConfiguration sampleHost (identifier badVersionPlugin))
     = Inr (Plugin sampleHost ApplicationPlugIn badVersionPlugin)
   \<and> dataServices badVersionPlugin = Some [badVersionService]
   \<and> \<not> eqLit (svc_type badVersionService) ''import''
   \<and> \<not> semver_valid sampleHost
         (svc_version (Service ServiceProto badVersionService
            (Plugin sampleHost ApplicationPlugIn badVersionPlugin)))
   \<and> makeDataService sampleHost badVersionService
         (Plugin sampleHost ApplicationPlugIn badVersionPlugin)
       = Inl (InvalidVersion (JStr ''hello'') (JStr ''one''))
   \<and> plugins (fst (installPlugin sampleHost badVersionPlugin (PluginLoader, 0))) = []
   \<and> (\<exists>e. fst (addDynamicPlugin sampleHost badVersionPlugin PluginLoader) = Inl e)"
proof -
  have made: "makePlugin sampleHost badRangePlugin
       (getPluginConfiguration sampleHost (identifier badRangePlugin))
     = Inr (Plugin sampleHost ApplicationPlugIn badRangePlugin)"
    by code_simp
  have defs: "dataServices badRangePlugin = Some [badRangeService]"
    by code_simp
  have d: "badRangeService \<in> set [badRangeService]"
    by simp
  have imp: "eqLit (svc_type badRangeService) ''import''"
    by code_simp
  have range: "\<not> semver_validRange sampleHost (svc_versionRange badRangeService)"
    by code_simp
  have bad: "if eqLit (svc_type badRangeService) ''import''
             then \<not> semver_validRange sampleHost (svc_versionRange badRangeService)
             else \<not> semver_valid sampleHost
                     (svc_version (Service ServiceProto badRangeService
                        (Plugin sampleHost ApplicationPlugIn badRangePlugin)))"
    using imp range by simp
  have names: "svc_localName badRangeService = JStr ''greeter''"
    "svc_versionRange badRangeService = JStr ''newest''"
    by code_simp+
  have empty: "plugins PluginLoader = []"
    by (simp add: PluginLoader_def)
  have importSide:
    "makeDataService sampleHost badRangeService (Plugin sampleHost ApplicationPlugIn badRangePlugin)
       = Inl (InvalidVersionRange (JStr ''greeter'') (JStr ''newest''))
     \<and> (\<exists>e. initDataServices sampleHost (Plugin sampleHost ApplicationPlugIn badRangePlugin) = Inl e)
     \<and> plugins (fst (installPlugin sampleHost badRangePlugin (PluginLoader, 0))) = []
     \<and> (\<exists>e. fst (addDynamicPlugin sampleHost badRangePlugin PluginLoader) = Inl e)"
    using C2_invalid_descriptor_invalidates_plugin [OF made defs d bad, of PluginLoader 0]
      imp names empty
    by simp
  have made': "makePlugin sampleHost badVersionPlugin
       (getPluginConfiguration sampleHost (identifier badVersionPlugin))
     = Inr (Plugin sampleHost ApplicationPlugIn badVersionPlugin)"
    by code_simp
  have defs': "dataServices badVersionPlugin = Some [badVersionService]"
    by code_simp
  have d': "badVersionService \<in> set [badVersionService]"
    by simp
  have exposed: "\<not> eqLit (svc_type badVersionService) ''import''"
    by code_simp
  have version: "\<not> semver_valid sampleHost
         (svc_version (Service ServiceProto badVersionService
            (Plugin sampleHost ApplicationPlugIn badVersionPlugin)))"
    by code_simp
  have bad': "if eqLit (svc_type badVersionService) ''import''
             then \<not> semver_validRange sampleHost (svc_versionRange badVersionService)
             else \<not> semver_valid sampleHost
                     (svc_version (Service ServiceProto badVersionService
                        (Plugin sampleHost ApplicationPlugIn badVersionPlugin)))"
    using exposed version by simp
  have names': "svc_name badVersionService = JStr ''hello''"
    "svc_version (Service ServiceProto badVersionService
            (Plugin sampleHost ApplicationPlugIn badVersionPlugin)) = JStr ''one''"
    by code_simp+
  have versionSide:
    "makeDataService sampleHost badVersionService
         (Plugin sampleHost ApplicationPlugIn badVersionPlugin)
       = Inl (InvalidVersion (JStr ''hello'') (JStr ''one''))
     \<and> plugins (fst (installPlugin sampleHost badVersionPlugin (PluginLoader, 0))) = []
     \<and> (\<exists>e. fst (addDynamicPlugin sampleHost badVersionPlugin PluginLoader) = Inl e)"
    using C2_invalid_descriptor_invalidates_plugin [OF made' defs' d' bad', of PluginLoader 0]
      exposed names' empty
    by simp
  from made defs d imp range importSide made' defs' exposed version versionSide
  show ?thesis by blast
qed

section \<open>The version of a service without one\<close>

text \<open>
  Claim C9. When the \<^verbatim>\<open>version\<close> of a service definition is \<^verbatim>\<open>undefined\<close>, the constructor
  \<^verbatim>\<open>Service\<close> (under every prototype) sets the service's version to the \<^verbatim>\<open>apiVersion\<close> of
  the owning plugin. When that \<^verbatim>\<open>apiVersion\<close> is a valid version, \<^verbatim>\<open>validate\<close> succeeds under
  every prototype that inherits \<^verbatim>\<open>Service.prototype.validate\<close>, \<^verbatim>\<open>makeDataService\<close> never
  throws the invalid-version error, and for every type but \<^verbatim>\<open>import\<close> it returns the service
  with that version.
\<close>

theorem C9_undefined_version_defaults_to_apiVersion:
  assumes undef: "svc_version d = JUndefined" and ok: "semver_valid env (apiVersion plugin)"
  shows "svc_version (Service proto d plugin) = apiVersion plugin
         \<and> (proto \<noteq> ImportProto \<longrightarrow> validate env (Service proto d plugin) = Inr ())
         \<and> (\<forall>n v. makeDataService env d plugin \<noteq> Inl (InvalidVersion n v))
         \<and> (\<not> eqLit (svc_type d) ''import'' \<longrightarrow>
              (\<exists>s. makeDataService env d plugin = Inr s \<and> svc_version s = apiVersion plugin))"
proof -
  have v: "svc_version (Service proto d plugin) = apiVersion plugin" for proto
    using undef by (simp add: Service_version)
  have val: "validate env (Service proto d plugin) = Inr ()" if "proto \<noteq> ImportProto"
    using that ok v [of proto] by (cases proto) (simp_all add: validate_def)
  have noInvalid: "makeDataService env d plugin \<noteq> Inl (InvalidVersion n v)" for n v
  proof (cases "eqLit (svc_type d) ''import''")
    case True
    then show ?thesis by (simp add: makeDataService_import)
  next
    case False
    then show ?thesis using ok v [of ServiceProto] by (simp add: makeDataService_exposed)
  qed
  have made: "\<exists>s. makeDataService env d plugin = Inr s \<and> svc_version s = apiVersion plugin"
    if "\<not> eqLit (svc_type d) ''import''"
    using that ok v by (simp add: makeDataService_exposed NodeService_def)
  from v val noInvalid made show ?thesis by blast
qed

theorem C9_witness:
  "svc_version helloService = JUndefined
   \<and> semver_valid sampleHost (apiVersion (samplePlugin ''org.zowe.sample'' ''application''))
   \<and> svc_version (Service ServiceProto helloService (samplePlugin ''org.zowe.sample'' ''application''))
       = JStr ''1.0.0''
   \<and> validate sampleHost
        (Service ServiceProto helloService (samplePlugin ''org.zowe.sample'' ''application'')) = Inr ()
   \<and> (\<exists>s. makeDataService sampleHost helloService (samplePlugin ''org.zowe.sample'' ''application'')
            = Inr s \<and> svc_version s = JStr ''1.0.0'')"
proof -
  have undef: "svc_version helloService = JUndefined"
    by code_simp
  have ok: "semver_valid sampleHost (apiVersion (samplePlugin ''org.zowe.sample'' ''application''))"
    by code_simp
  have api: "apiVersion (samplePlugin ''org.zowe.sample'' ''application'') = JStr ''1.0.0''"
    by code_simp
  have notImport: "\<not> eqLit (svc_type helloService) ''import''"
    by code_simp
  from C9_undefined_version_defaults_to_apiVersion [OF undef ok, of ServiceProto]
  show ?thesis
    using undef ok api notImport by simp
qed

section \<open>Host and port of an external service\<close>

text \<open>
  Claim C10. After \<^verbatim>\<open>ExternalService(def, configuration, plugin)\<close> the host of the service
  is the definition's host when that is present (truthy); otherwise the plugin's host when
  that is truthy; otherwise the host of the remote configuration when there is a remote
  configuration, and the plugin's (falsy) host when there is none. The port is resolved
  the same way, independently of the host. An earlier source that is present is never
  replaced by a later one.
\<close>

theorem C10_external_service_host_port_precedence:
  "svc_host (ExternalService d configuration plugin) =
     (if truthy (svc_host d) then svc_host d
      else if truthy (host plugin) then host plugin
      else (case configuration of
              None \<Rightarrow> host plugin
            | Some remoteConfig \<Rightarrow> rc_host remoteConfig))
   \<and> svc_port (ExternalService d configuration plugin) =
     (if truthy (svc_port d) then svc_port d
      else if truthy (port plugin) then port plugin
      else (case configuration of
              None \<Rightarrow> port plugin
            | Some remoteConfig \<Rightarrow> rc_port remoteConfig))"
  by (simp add: ExternalService_def Let_def split: option.splits)

section \<open>Host and port of a proxy connector\<close>

text \<open>
  Claim C5, on the proxy connector \<^verbatim>\<open>org.zowe.proxy\<close> that has neither host nor port, with
  the remote configuration \<^verbatim>\<open>{"host": "remote.example.com", "port": 8542}\<close>: the constructor
  leaves the port \<^verbatim>\<open>undefined\<close> and sets the host to the remote port 8542. The base validity
  check passes, \<^verbatim>\<open>isValid\<close> is false on the missing port, and the batch loop skips the plugin.
\<close>

theorem C5_proxy_connector_port_not_defaulted:
  "host proxyPlugin = JUndefined \<and> port proxyPlugin = JUndefined
   \<and> getPluginConfiguration remoteHost (identifier proxyPlugin) = Some sampleRemote
   \<and> rc_host sampleRemote = JStr ''remote.example.com'' \<and> rc_port sampleRemote = JNum 8542
   \<and> makePlugin remoteHost proxyPlugin (Some sampleRemote)
       = Inr (ProxyConnectorPlugIn_new remoteHost proxyPlugin (Some sampleRemote))
   \<and> host (ProxyConnectorPlugIn_new remoteHost proxyPlugin (Some sampleRemote)) = JNum 8542
   \<and> port (ProxyConnectorPlugIn_new remoteHost proxyPlugin (Some sampleRemote)) = JUndefined
   \<and> Plugin_isValid (ProxyConnectorPlugIn_new remoteHost proxyPlugin (Some sampleRemote))
   \<and> isValid remoteHost (ProxyConnectorPlugIn_new remoteHost proxyPlugin (Some sampleRemote))
       = Inr False
   \<and> loadPlugin remoteHost proxyPlugin = Inr None"
  by code_simp

section \<open>Authentication plugins that were not requested\<close>

text \<open>
  \<^verbatim>\<open>NodeAuthenticationPlugIn.prototype.isValid\<close> returns \<^verbatim>\<open>true\<close> exactly when the base
  validity check passes, \<^verbatim>\<open>filename\<close> and \<^verbatim>\<open>authenticationCategory\<close> are truthy, and the
  authentication manager says that the plugin's identifier and category were requested.
\<close>

lemma NodeAuthenticationPlugIn_isValid_iff:
  "(NodeAuthenticationPlugIn_isValid env this = Inr True) =
     (Plugin_isValid this \<and> truthy (filename this) \<and> truthy (authenticationCategory this)
      \<and> (\<exists>authPluginRequested. authManager env = Some authPluginRequested
            \<and> authPluginRequested (identifier this) (authenticationCategory this)))"
  by (auto simp: NodeAuthenticationPlugIn_isValid_def split: option.splits)

text \<open>
  In a batch, a definition of the type \<^verbatim>\<open>nodeAuthentication\<close> that the authentication
  manager did not request leaves the \<^verbatim>\<open>try\<close> block by \<^verbatim>\<open>continue\<close>: it is not pushed to
  \<^verbatim>\<open>plugins\<close> and not entered in \<^verbatim>\<open>pluginMap\<close>.
\<close>

lemma unrequested_authentication_skipped_in_batch:
  assumes proto: "plugInConstructorsByType (pluginType pluginDef) = Some NodeAuthenticationPlugIn"
    and am: "authManager env = Some requested"
    and no: "\<not> requested (identifier pluginDef) (authenticationCategory pluginDef)"
  shows "loadPlugin env pluginDef = Inr None
         \<and> plugins (fst (installPlugin env pluginDef (l, n))) = plugins l
         \<and> pluginMap (fst (installPlugin env pluginDef (l, n))) = pluginMap l"
proof -
  let ?made = "Plugin env NodeAuthenticationPlugIn pluginDef"
  have invalid: "NodeAuthenticationPlugIn_isValid env ?made = Inr False"
  proof (cases "Plugin_isValid ?made \<and> truthy (filename pluginDef)
                \<and> truthy (authenticationCategory pluginDef)")
    case True
    then have "truthy (identifier pluginDef)"
      by (simp add: Plugin_isValid_def)
    with True have "identifier ?made = identifier pluginDef"
      and "authenticationCategory ?made = authenticationCategory pluginDef"
      by (simp_all add: orNull_id)
    with True am no show ?thesis
      by (simp add: NodeAuthenticationPlugIn_isValid_def)
  next
    case False
    then show ?thesis
      by (auto simp: NodeAuthenticationPlugIn_isValid_def)
  qed
  have "loadPlugin env pluginDef = Inr None"
    using proto invalid by (simp add: loadPlugin_def makePlugin_def isValid_def)
  then show ?thesis by (simp add: installPlugin_def)
qed

text \<open>
  Claim C8, on the authentication plugin \<^verbatim>\<open>org.zowe.other\<close> of the category \<^verbatim>\<open>saf\<close>, which
  the authentication manager of the sample host did not request. \<^verbatim>\<open>isValid\<close> is false for
  it and a batch skips it, as the claim says. \<^verbatim>\<open>addDynamicPlugin\<close> calls no \<^verbatim>\<open>isValid\<close>: it
  loads the handler module, pushes the plugin to \<^verbatim>\<open>plugins\<close> and enters it in \<^verbatim>\<open>pluginMap\<close>.
\<close>

theorem C8_dynamic_addition_loads_unrequested_plugin:
  "authManager sampleHost
     = Some (\<lambda>pluginId category. pluginId = JStr ''org.zowe.auth'' \<and> category = JStr ''saf'')
   \<and> identifier (authPlugin ''org.zowe.other'') = JStr ''org.zowe.other''
   \<and> authenticationCategory (authPlugin ''org.zowe.other'') = JStr ''saf''
   \<and> isValid sampleHost (Plugin sampleHost NodeAuthenticationPlugIn (authPlugin ''org.zowe.other''))
       = Inr False
   \<and> loadPlugin sampleHost (authPlugin ''org.zowe.other'') = Inr None
   \<and> fst (addDynamicPlugin sampleHost (authPlugin ''org.zowe.other'') PluginLoader) = Inr ()
   \<and> map identifier
         (plugins (snd (addDynamicPlugin sampleHost (authPlugin ''org.zowe.other'') PluginLoader)))
       = [JStr ''org.zowe.other'']
   \<and> map authenticationModule
         (plugins (snd (addDynamicPlugin sampleHost (authPlugin ''org.zowe.other'') PluginLoader)))
       = [True]
   \<and> map fst (pluginMap (snd (addDynamicPlugin sampleHost (authPlugin ''org.zowe.other'')
                                 PluginLoader)))
       = [''org.zowe.other'']"
proof -
  have am: "authManager sampleHost
     = Some (\<lambda>pluginId category. pluginId = JStr ''org.zowe.auth'' \<and> category = JStr ''saf'')"
    by (simp add: sampleHost_def)
  have rest: "identifier (authPlugin ''org.zowe.other'') = JStr ''org.zowe.other''
   \<and> authenticationCategory (authPlugin ''org.zowe.other'') = JStr ''saf''
   \<and> isValid sampleHost (Plugin sampleHost NodeAuthenticationPlugIn (authPlugin ''org.zowe.other''))
       = Inr False
   \<and> loadPlugin sampleHost (authPlugin ''org.zowe.other'') = Inr None
   \<and> fst (addDynamicPlugin sampleHost (authPlugin ''org.zowe.other'') PluginLoader) = Inr ()
   \<and> map identifier
         (plugins (snd (addDynamicPlugin sampleHost (authPlugin ''org.zowe.other'') PluginLoader)))
       = [JStr ''org.zowe.other'']
   \<and> map authenticationModule
         (plugins (snd (addDynamicPlugin sampleHost (authPlugin ''org.zowe.other'') PluginLoader)))
       = [True]
   \<and> map fst (pluginMap (snd (addDynamicPlugin sampleHost (authPlugin ''org.zowe.other'')
                                 PluginLoader)))
       = [''org.zowe.other'']"
    by code_simp
  from am rest show ?thesis by blast
qed

section \<open>The loop of a batch\<close>

lemma pushed_Nil [simp]: "pushed env [] = []"
  by (simp add: pushed_def map_filter_simps)

lemma pushed_Cons:
  "pushed env (d # ds) =
     (case loadPlugin env d of
        Inl e \<Rightarrow> pushed env ds
      | Inr None \<Rightarrow> pushed env ds
      | Inr (Some p) \<Rightarrow> p # pushed env ds)"
  by (simp add: pushed_def map_filter_simps split: sum.splits option.splits)

lemma pushed_append: "pushed env (xs @ ys) = pushed env xs @ pushed env ys"
  by (simp add: pushed_def map_filter_def)

lemma installPlugin_step:
  "installPlugin env d (l, n) =
     (l\<lparr>plugins := plugins l @ pushed env [d],
        pluginMap := fold register (pushed env [d]) (pluginMap l),
        logged := logged l @ [outcome env d]\<rparr>,
      n + length (pushed env [d]))"
  by (simp add: installPlugin_def pushed_Cons outcome_def register_def
        split: sum.splits option.splits)

lemma fold_installPlugin:
  "fold (installPlugin env) sortedDefs (l, n) =
     (l\<lparr>plugins := plugins l @ pushed env sortedDefs,
        pluginMap := fold register (pushed env sortedDefs) (pluginMap l),
        logged := logged l @ map (outcome env) sortedDefs\<rparr>,
      n + length (pushed env sortedDefs))"
proof (induction sortedDefs arbitrary: l n)
  case Nil
  show ?case by simp
next
  case (Cons d ds)
  have split: "pushed env (d # ds) = pushed env [d] @ pushed env ds"
    using pushed_append [of env "[d]" ds] by simp
  show ?case
    by (simp add: installPlugin_step Cons.IH split)
qed

lemma installPlugins_plugins:
  "plugins (installPlugins env defs l) =
     plugins l @ pushed env (fst (processImports env (plugins l) defs))"
  by (simp add: installPlugins_def Let_def fold_installPlugin)


lemma installPlugins_emitted:
  "emitted (installPlugins env defs l) =
     emitted l @ GivePluginAmount (length (plugins (installPlugins env defs l)))
               # map PluginAdded (plugins (installPlugins env defs l))"
  by (simp add: installPlugins_def Let_def fold_installPlugin)

lemma installPlugins_logged:
  "logged (installPlugins env defs l) =
     logged l
     @ map (\<lambda>rejectedPlugin. CouldNotInitialize (pluginId rejectedPlugin) (status rejectedPlugin))
         (snd (processImports env (plugins l) defs))
     @ map (outcome env) (fst (processImports env (plugins l) defs))
     @ [BatchProcessed (length (pushed env (fst (processImports env (plugins l) defs))))
          (length defs)]"
  by (simp add: installPlugins_def Let_def fold_installPlugin)



lemma pushed_mem: "d \<in> set ds \<Longrightarrow> loadPlugin env d = Inr (Some p) \<Longrightarrow> p \<in> set (pushed env ds)"
  by (induction ds) (auto simp: pushed_Cons split: sum.splits option.splits)

lemma pushed_fails: "loadPlugin env d = Inl e \<Longrightarrow> pushed env (xs @ d # ys) = pushed env xs @ pushed env ys"
  using pushed_append [of env xs "d # ys"] by (simp add: pushed_Cons)

text \<open>
  Claim C3. When the \<^verbatim>\<open>try\<close> block throws for one definition of the sorted list (whatever
  the error: an invalid version or version range, an unknown plugin type, a service that
  cannot be constructed or loaded), \<^verbatim>\<open>installPlugins\<close> still runs to its end: the failure
  is logged, the plugins pushed are exactly those of the definitions before and after the
  failing one that load, in order, so every later definition that loads is among them, and
  the last line logged is the one after the loop.
\<close>

theorem C3_failing_plugin_is_skipped:
  assumes sorted: "fst (processImports env (plugins l) pluginDefs) = before @ pluginDef # after"
    and fails: "loadPlugin env pluginDef = Inl e"
  shows "plugins (installPlugins env pluginDefs l) = plugins l @ pushed env before @ pushed env after
         \<and> FailedToLoad (identifier pluginDef) e \<in> set (logged (installPlugins env pluginDefs l))
         \<and> last (logged (installPlugins env pluginDefs l))
             = BatchProcessed (length (pushed env before) + length (pushed env after))
                 (length pluginDefs)
         \<and> (\<forall>d p. d \<in> set after \<and> loadPlugin env d = Inr (Some p)
               \<longrightarrow> p \<in> set (plugins (installPlugins env pluginDefs l)))"
proof -
  have p: "pushed env (before @ pluginDef # after) = pushed env before @ pushed env after"
    using fails by (rule pushed_fails)
  have plugins: "plugins (installPlugins env pluginDefs l)
                   = plugins l @ pushed env before @ pushed env after"
    by (simp add: installPlugins_plugins sorted p)
  have line: "outcome env pluginDef = FailedToLoad (identifier pluginDef) e"
    using fails by (simp add: outcome_def)
  have logged: "FailedToLoad (identifier pluginDef) e \<in> set (logged (installPlugins env pluginDefs l))"
    using line by (simp add: installPlugins_logged sorted)
  have final: "last (logged (installPlugins env pluginDefs l))
             = BatchProcessed (length (pushed env before) + length (pushed env after))
                 (length pluginDefs)"
    by (simp add: installPlugins_logged sorted p)
  have rest: "p \<in> set (plugins (installPlugins env pluginDefs l))"
    if "d \<in> set after" and "loadPlugin env d = Inr (Some p)" for d p
    using pushed_mem [OF that] by (simp add: plugins)
  from plugins logged final rest show ?thesis by blast
qed

theorem C3_witness:
  "fst (processImports sampleHost (plugins PluginLoader)
          [authPlugin ''org.zowe.auth'', widgetPlugin, samplePlugin ''org.zowe.one'' ''application''])
     = [authPlugin ''org.zowe.auth''] @ widgetPlugin # [samplePlugin ''org.zowe.one'' ''application'']
   \<and> loadPlugin sampleHost widgetPlugin
       = Inl (UnknownPluginType (JStr ''org.zowe.widget'') (JStr ''widget''))
   \<and> map identifier
        (plugins (installPlugins sampleHost
           [authPlugin ''org.zowe.auth'', widgetPlugin, samplePlugin ''org.zowe.one'' ''application'']
           PluginLoader))
       = [JStr ''org.zowe.auth'', JStr ''org.zowe.one'']
   \<and> last (logged (installPlugins sampleHost
           [authPlugin ''org.zowe.auth'', widgetPlugin, samplePlugin ''org.zowe.one'' ''application'']
           PluginLoader))
       = BatchProcessed 2 3"
proof -
  let ?auth = "authPlugin ''org.zowe.auth''"
  let ?one = "samplePlugin ''org.zowe.one'' ''application''"
  have sorted: "fst (processImports sampleHost (plugins PluginLoader) [?auth, widgetPlugin, ?one])
                  = [?auth] @ widgetPlugin # [?one]"
    by (simp add: sampleHost_def insertionOrder_def)
  have fails: "loadPlugin sampleHost widgetPlugin
                 = Inl (UnknownPluginType (JStr ''org.zowe.widget'') (JStr ''widget''))"
    by code_simp
  have before: "map identifier (pushed sampleHost [?auth]) = [JStr ''org.zowe.auth'']"
    by code_simp
  have after: "map identifier (pushed sampleHost [?one]) = [JStr ''org.zowe.one'']"
    by code_simp
  have empty: "plugins PluginLoader = []"
    by (simp add: PluginLoader_def)
  have one: "length (pushed sampleHost [?auth]) = 1" "length (pushed sampleHost [?one]) = 1"
    using before after by (metis length_map length_Cons list.size(3) One_nat_def)+
  from C3_failing_plugin_is_skipped [OF sorted fails]
  have "plugins (installPlugins sampleHost [?auth, widgetPlugin, ?one] PluginLoader)
          = pushed sampleHost [?auth] @ pushed sampleHost [?one]"
    and "last (logged (installPlugins sampleHost [?auth, widgetPlugin, ?one] PluginLoader))
          = BatchProcessed 2 3"
    by (simp_all add: empty one)
  then show ?thesis
    using sorted fails before after by simp
qed

section \<open>Notifications after a batch\<close>

text \<open>
  Claim C7 as stated fails. After a first batch has loaded \<^verbatim>\<open>org.zowe.one\<close>, a second batch
  that loads \<^verbatim>\<open>org.zowe.two\<close> emits the amount 2 and then \<^verbatim>\<open>pluginAdded\<close> for both plugins,
  not only for the one accepted in the second batch.
\<close>

theorem C7_counterexample:
  "drop (length (emitted firstLoader)) (emitted secondLoader)
     \<noteq> GivePluginAmount (length (plugins secondLoader))
         # map PluginAdded (drop (length (plugins firstLoader)) (plugins secondLoader))
   \<and> map identifier (plugins firstLoader) = [JStr ''org.zowe.one'']
   \<and> map identifier (plugins secondLoader) = [JStr ''org.zowe.one'', JStr ''org.zowe.two'']
   \<and> drop (length (emitted firstLoader)) (emitted secondLoader)
       = GivePluginAmount 2 # map PluginAdded (plugins secondLoader)"
  by code_simp

text \<open>
  Claim C7, amended. \<^verbatim>\<open>installPlugins\<close> emits \<^verbatim>\<open>givePluginAmount\<close> once, with the length of
  the whole list \<^verbatim>\<open>this.plugins\<close>, and then \<^verbatim>\<open>pluginAdded\<close> once for every plugin of that
  list, in its order: the plugins the loader had before the batch, followed by the plugins
  the batch pushed. When the loader had no plugin before the batch, these are exactly the
  plugins accepted in the batch.
\<close>

theorem C7_notifications_cover_all_plugins:
  "emitted (installPlugins env pluginDefs l)
     = emitted l
       @ GivePluginAmount (length (plugins (installPlugins env pluginDefs l)))
         # map PluginAdded (plugins (installPlugins env pluginDefs l))
   \<and> plugins (installPlugins env pluginDefs l)
       = plugins l @ pushed env (fst (processImports env (plugins l) pluginDefs))
   \<and> (plugins l = [] \<longrightarrow>
        emitted (installPlugins env pluginDefs l)
          = emitted l
            @ GivePluginAmount (length (pushed env (fst (processImports env [] pluginDefs))))
              # map PluginAdded (pushed env (fst (processImports env [] pluginDefs))))"
  using installPlugins_emitted [of env pluginDefs l] installPlugins_plugins [of env pluginDefs l]
  by simp

theorem C7_witness:
  "plugins PluginLoader = []
   \<and> emitted firstLoader
       = [GivePluginAmount 1,
          PluginAdded (withDataServices
            (Plugin sampleHost ApplicationPlugIn (samplePlugin ''org.zowe.one'' ''application''))
            None)]"
proof -
  have empty: "plugins PluginLoader = []" "emitted PluginLoader = []"
    by (simp_all add: PluginLoader_def)
  have sorted: "fst (processImports sampleHost [] [samplePlugin ''org.zowe.one'' ''application''])
                  = [samplePlugin ''org.zowe.one'' ''application'']"
    by (simp add: sampleHost_def insertionOrder_def)
  have one: "pushed sampleHost [samplePlugin ''org.zowe.one'' ''application'']
               = [withDataServices
                    (Plugin sampleHost ApplicationPlugIn
                       (samplePlugin ''org.zowe.one'' ''application'')) None]"
    by code_simp
  from C7_notifications_cover_all_plugins
         [of sampleHost "[samplePlugin ''org.zowe.one'' ''application'']" PluginLoader]
  show ?thesis
    using empty by (simp add: firstLoader_def sorted one)
qed

section \<open>What becomes of the definitions of a batch\<close>




section \<open>Adding a plugin dynamically\<close>






text \<open>
  The check of \<^verbatim>\<open>addDynamicPlugin\<close> reads \<^verbatim>\<open>pluginMap\<close> under the identifier of the
  definition, and the plugin is stored under the identifier of the plugin object. They
  are the same unless the definition has no identifier: then the check is under
  \<^verbatim>\<open>undefined\<close> and the entry under the \<^verbatim>\<open>null\<close> of \<^verbatim>\<open>Plugin.prototype\<close>. So a second
  definition without identifier is added too, and one whose identifier is \<^verbatim>\<open>null\<close> is
  then refused.
\<close>

lemma addDynamicPlugin_without_identifier:
  "fst (addDynamicPlugin sampleHost anonymousPlugin PluginLoader) = Inr ()
   \<and> map identifier (plugins (snd (addDynamicPlugin sampleHost anonymousPlugin PluginLoader)))
       = [JNull]
   \<and> map fst (pluginMap (snd (addDynamicPlugin sampleHost anonymousPlugin PluginLoader)))
       = [''null'']
   \<and> fst (addDynamicPlugin sampleHost anonymousPlugin
             (snd (addDynamicPlugin sampleHost anonymousPlugin PluginLoader))) = Inr ()
   \<and> fst (addDynamicPlugin sampleHost (anonymousPlugin\<lparr>identifier := JNull\<rparr>)
             (snd (addDynamicPlugin sampleHost anonymousPlugin PluginLoader)))
       = Inl AlreadyRegistered"
  by code_simp



section \<open>Groups of services and their highest version\<close>

lemma addService_inserted:
  assumes "addService env service name container = Inr container'"
  shows "\<exists>g'. container' = AList.update (toPropertyKey name) g' container
              \<and> inserted env service (groupAt container name) g'"
proof (cases "truthy (highestVersion (groupAt container name))")
  case False
  with assms show ?thesis
    by (auto simp: addService_def groupAt_def inserted_def Let_def)
next
  case True
  with assms show ?thesis
    by (auto simp: addService_def groupAt_def inserted_def Let_def split: option.splits if_splits)
qed

lemma inserted_entry:
  assumes "inserted env service g g'" and "map_of (versions g') k = Some s"
  shows "(k = toPropertyKey (svc_version service) \<and> s = service)
         \<or> map_of (versions g) k = Some s"
  using assms by (auto simp: inserted_def update_conv' split: if_splits)

lemma inserted_key:
  assumes "inserted env service g g'"
  shows "fst ` set (versions g') = insert (toPropertyKey (svc_version service)) (fst ` set (versions g))"
  using assms by (simp add: inserted_def dom_update)

lemma inserted_highest:
  assumes "inserted env service g g'"
  shows "(highestVersion g' = svc_version service
          \<and> (\<not> truthy (highestVersion g)
              \<or> semver_gt env (svc_version service) (highestVersion g) = Some True))
         \<or> (highestVersion g' = highestVersion g \<and> truthy (highestVersion g)
             \<and> semver_gt env (svc_version service) (highestVersion g) = Some False)"
  using assms by (auto simp: inserted_def split: if_splits)



lemma contract_irrefl: "semverContract env \<Longrightarrow> semver_gt env a a \<noteq> Some True"
  unfolding semverContract_def by blast

lemma contract_trans:
  "semverContract env \<Longrightarrow> semver_gt env a b = Some True \<Longrightarrow> semver_gt env b d = Some True
     \<Longrightarrow> semver_gt env a d = Some True"
  unfolding semverContract_def by blast

lemma contract_truthy:
  "semverContract env \<Longrightarrow> semver_gt env a b = Some True \<Longrightarrow> truthy a \<and> truthy b"
  unfolding semverContract_def by blast

lemma inserted_maximum:
  assumes c: "semverContract env"
    and max: "\<And>k s. map_of (versions g) k = Some s \<Longrightarrow>
                k = toPropertyKey (svc_version s)
                \<and> semver_gt env (svc_version s) (highestVersion g) \<noteq> Some True"
    and present: "truthy (highestVersion g) \<Longrightarrow>
                    toPropertyKey (highestVersion g) \<in> fst ` set (versions g)"
    and nt: "neverTruthy g"
    and ins: "inserted env service g g'"
  shows "highestIsMaximum env g' \<and> neverTruthy g'"
proof -
  let ?v = "svc_version service"
  note irrefl = contract_irrefl [OF c]
  note trans = contract_trans [OF c]
  note valid = contract_truthy [OF c]
  from inserted_highest [OF ins] show ?thesis
  proof
    assume new: "highestVersion g' = ?v
          \<and> (\<not> truthy (highestVersion g) \<or> semver_gt env ?v (highestVersion g) = Some True)"
    then have h': "highestVersion g' = ?v" by simp
    have old: "semver_gt env (svc_version s) ?v \<noteq> Some True"
      if s: "map_of (versions g) k = Some s" for k s
    proof
      assume gt: "semver_gt env (svc_version s) ?v = Some True"
      from new have "\<not> truthy (highestVersion g)
                     \<or> semver_gt env ?v (highestVersion g) = Some True" by simp
      then show False
      proof
        assume "\<not> truthy (highestVersion g)"
        with nt s have "\<not> truthy (svc_version s)"
          unfolding neverTruthy_def by blast
        with valid [OF gt] show False by simp
      next
        assume "semver_gt env ?v (highestVersion g) = Some True"
        from trans [OF gt this] max [OF s] show False by simp
      qed
    qed
    have m: "k = toPropertyKey (svc_version s)
               \<and> semver_gt env (svc_version s) (highestVersion g') \<noteq> Some True"
      if e: "map_of (versions g') k = Some s" for k s
      using inserted_entry [OF ins e]
    proof
      assume "k = toPropertyKey ?v \<and> s = service"
      then show ?thesis using irrefl [of ?v] by (simp add: h')
    next
      assume s: "map_of (versions g) k = Some s"
      from max [OF s] old [OF s] show ?thesis by (simp add: h')
    qed
    have n: "neverTruthy g'"
      unfolding neverTruthy_def
    proof (intro impI allI)
      fix k s
      assume falsy: "\<not> truthy (highestVersion g')" and e: "map_of (versions g') k = Some s"
      from falsy have fv: "\<not> truthy ?v" by (simp add: h')
      with new valid [of ?v "highestVersion g"] have fh: "\<not> truthy (highestVersion g)"
        by blast
      from inserted_entry [OF ins e] show "\<not> truthy (svc_version s)"
      proof
        assume "k = toPropertyKey ?v \<and> s = service"
        with fv show ?thesis by simp
      next
        assume "map_of (versions g) k = Some s"
        with nt fh show ?thesis unfolding neverTruthy_def by blast
      qed
    qed
    have "toPropertyKey (highestVersion g') \<in> fst ` set (versions g')"
      by (simp add: inserted_key [OF ins] h')
    with m n show ?thesis
      unfolding highestIsMaximum_def by blast
  next
    assume same: "highestVersion g' = highestVersion g \<and> truthy (highestVersion g)
             \<and> semver_gt env ?v (highestVersion g) = Some False"
    then have h': "highestVersion g' = highestVersion g" by simp
    have m: "k = toPropertyKey (svc_version s)
               \<and> semver_gt env (svc_version s) (highestVersion g') \<noteq> Some True"
      if e: "map_of (versions g') k = Some s" for k s
      using inserted_entry [OF ins e]
    proof
      assume "k = toPropertyKey ?v \<and> s = service"
      then show ?thesis using same by (simp add: h')
    next
      assume s: "map_of (versions g) k = Some s"
      from max [OF s] show ?thesis by (simp add: h')
    qed
    have n: "neverTruthy g'"
      using same by (simp add: neverTruthy_def)
    have "toPropertyKey (highestVersion g') \<in> fst ` set (versions g')"
      using present same by (simp add: inserted_key [OF ins] h')
    with m n show ?thesis
      unfolding highestIsMaximum_def by blast
  qed
qed

lemma inserted_not_decreased:
  assumes c: "semverContract env" and ins: "inserted env service g g'"
  shows "semver_gt env (highestVersion g) (highestVersion g') \<noteq> Some True"
  using inserted_highest [OF ins]
proof
  assume new: "highestVersion g' = svc_version service
          \<and> (\<not> truthy (highestVersion g)
              \<or> semver_gt env (svc_version service) (highestVersion g) = Some True)"
  show ?thesis
  proof
    assume gt: "semver_gt env (highestVersion g) (highestVersion g') = Some True"
    from new have "\<not> truthy (highestVersion g)
              \<or> semver_gt env (svc_version service) (highestVersion g) = Some True"
      by simp
    then show False
    proof
      assume "\<not> truthy (highestVersion g)"
      with contract_truthy [OF c gt] show False by simp
    next
      assume "semver_gt env (svc_version service) (highestVersion g) = Some True"
      with new have "semver_gt env (highestVersion g') (highestVersion g) = Some True"
        by simp
      from contract_trans [OF c gt this] contract_irrefl [OF c] show False by simp
    qed
  qed
next
  assume "highestVersion g' = highestVersion g \<and> truthy (highestVersion g)
             \<and> semver_gt env (svc_version service) (highestVersion g) = Some False"
  then show ?thesis using contract_irrefl [OF c] by simp
qed

lemma groupAt_invariant:
  assumes "containerInvariant env container"
  shows "(\<forall>k s. map_of (versions (groupAt container name)) k = Some s \<longrightarrow>
                k = toPropertyKey (svc_version s)
                \<and> semver_gt env (svc_version s) (highestVersion (groupAt container name)) \<noteq> Some True)
         \<and> (truthy (highestVersion (groupAt container name)) \<longrightarrow>
               toPropertyKey (highestVersion (groupAt container name))
                 \<in> fst ` set (versions (groupAt container name)))
         \<and> neverTruthy (groupAt container name)"
proof (cases "map_of container (toPropertyKey name)")
  case None
  then show ?thesis by (simp add: groupAt_def neverTruthy_def)
next
  case (Some g)
  with assms have "highestIsMaximum env g \<and> neverTruthy g"
    unfolding containerInvariant_def by blast
  with Some show ?thesis
    by (simp add: groupAt_def highestIsMaximum_def)
qed

lemma addService_invariant:
  assumes c: "semverContract env" and inv: "containerInvariant env container"
    and add: "addService env service name container = Inr container'"
  shows "containerInvariant env container'"
proof -
  from addService_inserted [OF add] obtain g'
    where c': "container' = AList.update (toPropertyKey name) g' container"
      and ins: "inserted env service (groupAt container name) g'"
    by blast
  from groupAt_invariant [OF inv, of name]
  have g': "highestIsMaximum env g' \<and> neverTruthy g'"
    by (intro inserted_maximum [OF c _ _ _ ins]) blast+
  show ?thesis
    unfolding containerInvariant_def
  proof (intro allI impI)
    fix k g
    assume "map_of container' k = Some g"
    then have "(k = toPropertyKey name \<and> g = g') \<or> map_of container k = Some g"
      by (auto simp: c' update_conv' split: if_splits)
    then show "highestIsMaximum env g \<and> neverTruthy g"
      using g' inv unfolding containerInvariant_def by blast
  qed
qed

lemma addService_not_decreased:
  assumes c: "semverContract env"
    and add: "addService env service name container = Inr container'"
    and g: "map_of container k = Some g"
  shows "\<exists>g'. map_of container' k = Some g'
              \<and> semver_gt env (highestVersion g) (highestVersion g') \<noteq> Some True"
proof -
  from addService_inserted [OF add] obtain g'
    where c': "container' = AList.update (toPropertyKey name) g' container"
      and ins: "inserted env service (groupAt container name) g'"
    by blast
  show ?thesis
  proof (cases "k = toPropertyKey name")
    case True
    with g have "groupAt container name = g"
      by (simp add: groupAt_def)
    with inserted_not_decreased [OF c ins] True show ?thesis
      by (simp add: c' update_conv')
  next
    case False
    with g contract_irrefl [OF c] show ?thesis
      by (simp add: c' update_conv')
  qed
qed


lemma forEach_invariant:
  assumes step: "\<And>x s s'. P s \<Longrightarrow> body x s = Inr s' \<Longrightarrow> P s'"
  shows "P s \<Longrightarrow> forEach body xs s = Inr s' \<Longrightarrow> P s'"
proof (induction xs arbitrary: s)
  case Nil
  then show ?case by simp
next
  case (Cons x xs)
  from Cons.prems(2) obtain s1 where s1: "body x s = Inr s1" and rest: "forEach body xs s1 = Inr s'"
    by (auto split: sum.splits)
  from step [OF Cons.prems(1) s1] rest show ?case
    by (rule Cons.IH)
qed

lemma initDataService_invariant:
  assumes c: "semverContract env"
    and inv: "containerInvariant env (groupedServices st) \<and> containerInvariant env (groupedImports st)"
    and step: "initDataService env this d st = Inr st'"
  shows "containerInvariant env (groupedServices st') \<and> containerInvariant env (groupedImports st')"
proof -
  note add = addService_invariant [OF c]
  from step inv show ?thesis
    unfolding initDataService_def
    by (auto split: sum.splits if_splits dest: add)
qed

lemma initDataServices_invariant:
  assumes c: "semverContract env" and defs: "dataServices this = Some defs"
    and init: "initDataServices env this = Inr plugin"
    and cont: "dataServicesGrouped plugin = Some container \<or> importsGrouped plugin = Some container"
  shows "containerInvariant env container"
proof -
  let ?P = "\<lambda>st. containerInvariant env (groupedServices st)
                  \<and> containerInvariant env (groupedImports st)"
  from init defs obtain st
    where loop: "forEach (initDataService env this) defs
                   \<lparr>groupedServices = [], groupedImports = [], filteredDataServices = []\<rparr> = Inr st"
      and plugin: "plugin = (withDataServices this (Some (filteredDataServices st)))
                      \<lparr>dataServicesGrouped := Some (groupedServices st),
                       importsGrouped := Some (groupedImports st)\<rparr>"
    by (auto simp: initDataServices_def split: sum.splits)
  have start: "?P \<lparr>groupedServices = [], groupedImports = [], filteredDataServices = []\<rparr>"
    by (simp add: containerInvariant_def)
  have "?P st"
    using start loop
    by (rule forEach_invariant [where P = ?P, rotated]) (rule initDataService_invariant [OF c])
  with cont plugin show ?thesis by auto
qed

text \<open>
  Claim C4. Let \<^verbatim>\<open>initDataServices\<close> have built the containers of a plugin from its
  \<^verbatim>\<open>dataServices\<close>, with a \<^verbatim>\<open>semver\<close> package as described by \<open>semverContract\<close>. In every
  group of \<^verbatim>\<open>dataServicesGrouped\<close> and of \<^verbatim>\<open>importsGrouped\<close>, \<^verbatim>\<open>highestVersion\<close> is the maximum
  of the versions present in \<^verbatim>\<open>versions\<close>: it is one of the keys, and no stored version is
  greater. Whatever service \<^verbatim>\<open>addService\<close> inserts next into the container, under whatever
  name, every group is still there, its \<^verbatim>\<open>highestVersion\<close> is again the maximum of its
  versions, and the old \<^verbatim>\<open>highestVersion\<close> is not greater than the new one.
\<close>

theorem C4_highestVersion_is_maximum:
  assumes c: "semverContract env" and defs: "dataServices this = Some defs"
    and init: "initDataServices env this = Inr plugin"
    and cont: "dataServicesGrouped plugin = Some container \<or> importsGrouped plugin = Some container"
    and at: "map_of container name = Some serviceGroup"
  shows "highestIsMaximum env serviceGroup
         \<and> (\<forall>service n container'.
               addService env service n container = Inr container' \<longrightarrow>
                 (\<exists>serviceGroup'. map_of container' name = Some serviceGroup'
                            \<and> highestIsMaximum env serviceGroup'
                            \<and> semver_gt env (highestVersion serviceGroup) (highestVersion serviceGroup')
                                \<noteq> Some True))"
proof -
  have inv: "containerInvariant env container"
    using c defs init cont by (rule initDataServices_invariant)
  with at have max: "highestIsMaximum env serviceGroup"
    unfolding containerInvariant_def by blast
  have more: "\<exists>serviceGroup'. map_of container' name = Some serviceGroup'
                            \<and> highestIsMaximum env serviceGroup'
                            \<and> semver_gt env (highestVersion serviceGroup) (highestVersion serviceGroup')
                                \<noteq> Some True"
    if add: "addService env service n container = Inr container'" for service n container'
  proof -
    from addService_not_decreased [OF c add at] obtain serviceGroup'
      where g': "map_of container' name = Some serviceGroup'"
        and le: "semver_gt env (highestVersion serviceGroup) (highestVersion serviceGroup') \<noteq> Some True"
      by blast
    from addService_invariant [OF c inv add] g' have "highestIsMaximum env serviceGroup'"
      unfolding containerInvariant_def by blast
    with g' le show ?thesis by blast
  qed
  from max more show ?thesis by blast
qed


text \<open>The sample host keeps the contract.\<close>

lemma parseVersion_empty: "parseVersion [] = None"
  by (simp add: parseVersion_def numericIdentifier_def)

lemma plainGt_truthy: "plainGt a b = Some r \<Longrightarrow> truthy a \<and> truthy b"
  by (cases a; cases b) (auto simp: parseVersion_empty split: option.splits)

lemma versionLess_irrefl: "\<not> versionLess x x"
  by (cases x) simp

lemma versionLess_trans: "versionLess x y \<Longrightarrow> versionLess y z \<Longrightarrow> versionLess x z"
  by (cases x; cases y; cases z) auto

lemma plainGt_irrefl: "plainGt a a \<noteq> Some True"
  by (cases a) (auto simp: versionLess_irrefl split: option.splits)

lemma plainGt_trans:
  "plainGt a b = Some True \<Longrightarrow> plainGt b d = Some True \<Longrightarrow> plainGt a d = Some True"
  by (cases a; cases b; cases d) (auto split: option.splits intro: versionLess_trans)

lemma sampleHost_contract: "semverContract sampleHost"
  unfolding semverContract_def sampleHost_def
  using plainGt_truthy plainGt_irrefl plainGt_trans
  by simp blast

theorem C4_witness:
  "semverContract sampleHost
   \<and> dataServices (Plugin sampleHost ApplicationPlugIn versionedPlugin)
       = Some [versionedService ''1.2.0'', versionedService ''2.0.0'', versionedService ''1.0.0'']
   \<and> map_sum id dataServicesGrouped
        (initDataServices sampleHost (Plugin sampleHost ApplicationPlugIn versionedPlugin))
       = Inr (Some [(''hello'', helloGroup)])
   \<and> map_of [(''hello'', helloGroup)] ''hello'' = Some helloGroup
   \<and> highestVersion helloGroup = JStr ''2.0.0''
   \<and> map fst (versions helloGroup) = [''1.2.0'', ''2.0.0'', ''1.0.0'']
   \<and> highestIsMaximum sampleHost helloGroup"
proof -
  let ?made = "Plugin sampleHost ApplicationPlugIn versionedPlugin"
  have defs: "dataServices ?made
       = Some [versionedService ''1.2.0'', versionedService ''2.0.0'', versionedService ''1.0.0'']"
    by code_simp
  have built: "map_sum id dataServicesGrouped (initDataServices sampleHost ?made)
       = Inr (Some [(''hello'', helloGroup)])"
    by code_simp
  then obtain plugin where init: "initDataServices sampleHost ?made = Inr plugin"
    and grouped: "dataServicesGrouped plugin = Some [(''hello'', helloGroup)]"
    by (cases "initDataServices sampleHost ?made") auto
  have at: "map_of [(''hello'', helloGroup)] ''hello'' = Some helloGroup"
    by simp
  have facts: "highestVersion helloGroup = JStr ''2.0.0''"
    "map fst (versions helloGroup) = [''1.2.0'', ''2.0.0'', ''1.0.0'']"
    by (simp_all add: helloGroup_def)
  from grouped
  have cont: "dataServicesGrouped plugin = Some [(''hello'', helloGroup)]
              \<or> importsGrouped plugin = Some [(''hello'', helloGroup)]"
    by simp
  from C4_highestVersion_is_maximum [OF sampleHost_contract defs init cont at]
  have "highestIsMaximum sampleHost helloGroup"
    by blast
  with sampleHost_contract defs built at facts show ?thesis
    by blast
qed

end
